theory Spec2Isabelle
  imports Main
begin

section \<open>The notebooks as data\<close>

text \<open>
  The repository consists of two Jupyter notebooks, stored one after the other in
  \<^verbatim>\<open>publish_keras_model_example.ipynb\<close>. A notebook is a list of cells; a code cell is
  a list of Python statements. The statement and expression forms below follow the
  node names of Python's \<^verbatim>\<open>ast\<close> module. The forms \<open>Try\<close>, \<open>While\<close>, \<open>For\<close>,
  \<open>Raise\<close>, \<open>FunctionDef\<close> and \<open>ClassDef\<close> are part of the language although no cell
  uses them: that absence is one of the properties verified below.
\<close>

datatype binop = Sub | Div

datatype expr =
    Name string
  | IntLit int
  | FloatLit string
  | StrLit string
  | BoolLit bool
  | Attribute expr string
  | Call expr "expr list"
  | Keyword string expr
  | Subscript expr expr
  | Slice "expr option" "expr option"
  | Tuple "expr list"
  | ListLit "expr list"
  | BinOp expr binop expr
  | CompareEq expr expr

text \<open>
  \<open>Keyword k v\<close> is a keyword argument \<^verbatim>\<open>k=v\<close> and stands only in the argument list
  of a \<open>Call\<close>. \<open>FloatLit\<close> keeps a floating-point literal as it is written.
  \<open>Import m a\<close> is \<^verbatim>\<open>import m as a\<close> (with \<open>a = m\<close> when there is no \<^verbatim>\<open>as\<close>);
  \<open>ImportFrom m ns\<close> is \<^verbatim>\<open>from m import ...\<close>, each imported name paired with the
  local name it is bound to. \<open>Try body handlers\<close> keeps the guarded block and the
  statements of its \<^verbatim>\<open>except\<close> clauses.
\<close>

datatype stmt =
    Import string string
  | ImportFrom string "(string \<times> string) list"
  | Assign expr expr
  | AugAssign expr binop expr
  | Expr expr
  | If expr "stmt list" "stmt list"
  | With expr "expr option" "stmt list"
  | Try "stmt list" "stmt list"
  | While expr "stmt list"
  | For expr expr "stmt list"
  | Raise expr
  | FunctionDef string "string list" "stmt list"
  | ClassDef string "expr list" "stmt list"

datatype cell = Markdown | Code "stmt list"

type_synonym notebook = "cell list"

subsection \<open>Shorthands used in the transcription\<close>

definition method_call :: "string \<Rightarrow> string \<Rightarrow> expr list \<Rightarrow> expr" where
  "method_call obj m args = Call (Attribute (Name obj) m) args"

definition print_call :: "expr list \<Rightarrow> stmt" where
  "print_call args = Expr (Call (Name ''print'') args)"

definition item :: "expr \<Rightarrow> string \<Rightarrow> expr" where
  "item e k = Subscript e (StrLit k)"

subsection \<open>The Keras notebook\<close>

definition keras_cell_train :: "stmt list" where
  "keras_cell_train =
    [ ImportFrom ''__future__'' [(''print_function'', ''print_function'')],
      Import ''keras'' ''keras'',
      ImportFrom ''keras.datasets'' [(''mnist'', ''mnist'')],
      ImportFrom ''keras.models'' [(''Sequential'', ''Sequential'')],
      ImportFrom ''keras.layers''
        [(''Dense'', ''Dense''), (''Dropout'', ''Dropout''), (''Flatten'', ''Flatten'')],
      ImportFrom ''keras.layers''
        [(''Conv2D'', ''Conv2D''), (''MaxPooling2D'', ''MaxPooling2D'')],
      ImportFrom ''keras'' [(''backend'', ''K'')],
      Assign (Name ''batch_size'') (IntLit 128),
      Assign (Name ''num_classes'') (IntLit 10),
      Assign (Name ''epochs'') (IntLit 4),
      Assign (Name ''train_size'') (IntLit 100),
      Assign (Tuple [Name ''img_rows'', Name ''img_cols'']) (Tuple [IntLit 28, IntLit 28]),
      Assign (Tuple [Tuple [Name ''x_train'', Name ''y_train''],
                     Tuple [Name ''x_test'', Name ''y_test'']])
             (method_call ''mnist'' ''load_data'' []),
      If (CompareEq (method_call ''K'' ''image_data_format'' []) (StrLit ''channels_first''))
        [ Assign (Name ''x_train'')
            (method_call ''x_train'' ''reshape''
              [Subscript (Attribute (Name ''x_train'') ''shape'') (IntLit 0),
               IntLit 1, Name ''img_rows'', Name ''img_cols'']),
          Assign (Name ''x_test'')
            (method_call ''x_test'' ''reshape''
              [Subscript (Attribute (Name ''x_test'') ''shape'') (IntLit 0),
               IntLit 1, Name ''img_rows'', Name ''img_cols'']),
          Assign (Name ''input_shape'')
            (Tuple [IntLit 1, Name ''img_rows'', Name ''img_cols'']) ]
        [ Assign (Name ''x_train'')
            (method_call ''x_train'' ''reshape''
              [Subscript (Attribute (Name ''x_train'') ''shape'') (IntLit 0),
               Name ''img_rows'', Name ''img_cols'', IntLit 1]),
          Assign (Name ''x_test'')
            (method_call ''x_test'' ''reshape''
              [Subscript (Attribute (Name ''x_test'') ''shape'') (IntLit 0),
               Name ''img_rows'', Name ''img_cols'', IntLit 1]),
          Assign (Name ''input_shape'')
            (Tuple [Name ''img_rows'', Name ''img_cols'', IntLit 1]) ],
      Assign (Name ''x_train'') (method_call ''x_train'' ''astype'' [StrLit ''float32'']),
      Assign (Name ''x_test'') (method_call ''x_test'' ''astype'' [StrLit ''float32'']),
      AugAssign (Name ''x_train'') Div (IntLit 255),
      AugAssign (Name ''x_test'') Div (IntLit 255),
      print_call [StrLit ''x_train shape:'', Attribute (Name ''x_train'') ''shape''],
      print_call [Subscript (Attribute (Name ''x_train'') ''shape'') (IntLit 0),
                  StrLit ''train samples''],
      print_call [Subscript (Attribute (Name ''x_test'') ''shape'') (IntLit 0),
                  StrLit ''test samples''],
      Assign (Name ''y_train'')
        (Call (Attribute (Attribute (Name ''keras'') ''utils'') ''to_categorical'')
          [Name ''y_train'', Name ''num_classes'']),
      Assign (Name ''y_test'')
        (Call (Attribute (Attribute (Name ''keras'') ''utils'') ''to_categorical'')
          [Name ''y_test'', Name ''num_classes'']),
      Assign (Name ''model'') (Call (Name ''Sequential'') []),
      Expr (method_call ''model'' ''add''
        [Call (Name ''Conv2D'')
          [IntLit 32, Keyword ''kernel_size'' (Tuple [IntLit 3, IntLit 3]),
           Keyword ''activation'' (StrLit ''relu''),
           Keyword ''input_shape'' (Name ''input_shape'')]]),
      Expr (method_call ''model'' ''add''
        [Call (Name ''Conv2D'')
          [IntLit 64, Tuple [IntLit 3, IntLit 3], Keyword ''activation'' (StrLit ''relu'')]]),
      Expr (method_call ''model'' ''add''
        [Call (Name ''MaxPooling2D'') [Keyword ''pool_size'' (Tuple [IntLit 2, IntLit 2])]]),
      Expr (method_call ''model'' ''add'' [Call (Name ''Dropout'') [FloatLit ''0.25'']]),
      Expr (method_call ''model'' ''add'' [Call (Name ''Flatten'') []]),
      Expr (method_call ''model'' ''add''
        [Call (Name ''Dense'') [IntLit 128, Keyword ''activation'' (StrLit ''relu'')]]),
      Expr (method_call ''model'' ''add'' [Call (Name ''Dropout'') [FloatLit ''0.5'']]),
      Expr (method_call ''model'' ''add''
        [Call (Name ''Dense'')
          [Name ''num_classes'', Keyword ''activation'' (StrLit ''softmax'')]]),
      Expr (method_call ''model'' ''compile''
        [Keyword ''loss''
           (Attribute (Attribute (Name ''keras'') ''losses'') ''categorical_crossentropy''),
         Keyword ''optimizer''
           (Call (Attribute (Attribute (Name ''keras'') ''optimizers'') ''Adadelta'') []),
         Keyword ''metrics'' (ListLit [StrLit ''accuracy''])]),
      Expr (method_call ''model'' ''fit''
        [Subscript (Name ''x_train'') (Slice None (Some (Name ''train_size''))),
         Subscript (Name ''y_train'') (Slice None (Some (Name ''train_size''))),
         Keyword ''batch_size'' (Name ''batch_size''),
         Keyword ''epochs'' (Name ''epochs''),
         Keyword ''verbose'' (IntLit 1),
         Keyword ''validation_data'' (Tuple [Name ''x_test'', Name ''y_test''])]),
      Assign (Name ''score'')
        (method_call ''model'' ''evaluate''
          [Name ''x_test'', Name ''y_test'', Keyword ''verbose'' (IntLit 0)]),
      print_call [StrLit ''Test loss:'', Subscript (Name ''score'') (IntLit 0)],
      print_call [StrLit ''Test accuracy:'', Subscript (Name ''score'') (IntLit 1)],
      Expr (method_call ''model'' ''save'' [StrLit ''keras_model.hd5'']) ]"

definition keras_cell_describe :: "stmt list" where
  "keras_cell_describe =
    [ ImportFrom ''dlhub_sdk.models.servables.keras'' [(''KerasModel'', ''KerasModel'')],
      Assign (Name ''model_info'')
        (method_call ''KerasModel'' ''create_model''
          [StrLit ''keras_model.hd5'',
           Call (Name ''list'')
             [Call (Name ''map'') [Name ''str'', Call (Name ''range'') [IntLit 10]]]]) ]"

definition keras_cell_enrich :: "stmt list" where
  "keras_cell_enrich =
    [ Expr (method_call ''model_info'' ''set_title'' [StrLit ''MNIST Digit Classifier'']),
      Expr (method_call ''model_info'' ''set_name'' [StrLit ''mnist_tiny_example'']),
      Expr (method_call ''model_info'' ''set_domains''
        [ListLit [StrLit ''general'', StrLit ''digit recognition'']]) ]"

definition keras_cell_io :: "stmt list" where
  "keras_cell_io =
    [ Assign
        (item (item (item (item (item (Name ''model_info'') ''servable'') ''methods'')
           ''run'') ''output'') ''description'')
        (StrLit ''Probabilities of being 0-9''),
      Assign
        (item (item (item (item (item (Name ''model_info'') ''servable'') ''methods'')
           ''run'') ''input'') ''description'')
        (StrLit ''Image of a digit'') ]"

definition keras_cell_print :: "stmt list" where
  "keras_cell_print =
    [ Import ''json'' ''json'',
      print_call [StrLit (CHR 0x0A # ''--> Model Information <--'')],
      print_call
        [method_call ''json'' ''dumps''
          [method_call ''model_info'' ''to_dict'' [], Keyword ''indent'' (IntLit 2)]] ]"

definition keras_cell_publish :: "stmt list" where
  "keras_cell_publish =
    [ Import ''dlhub_sdk'' ''dlhub_sdk'',
      Assign (Name ''dl'') (method_call ''dlhub_sdk'' ''DLHubClient'' []),
      Assign (Name ''task_id'') (method_call ''dl'' ''publish_servable'' [Name ''model_info'']),
      print_call [Name ''task_id''] ]"

definition keras_notebook :: notebook where
  "keras_notebook =
    [ Markdown, Markdown, Markdown,
      Code keras_cell_train,
      Markdown,
      Code keras_cell_describe,
      Markdown,
      Code keras_cell_enrich,
      Markdown,
      Code keras_cell_io,
      Markdown,
      Code keras_cell_print,
      Markdown,
      Code keras_cell_publish ]"

subsection \<open>The scikit-learn notebook\<close>

definition sklearn_cell_dataset :: "stmt list" where
  "sklearn_cell_dataset =
    [ ImportFrom ''dlhub_sdk.models.datasets'' [(''TabularDataset'', ''TabularDataset'')],
      Import ''pandas'' ''pd'',
      Import ''json'' ''json'',
      Assign (Name ''data'')
        (method_call ''pd'' ''read_csv''
          [StrLit ''scikit_learn_model/iris.csv'', Keyword ''header'' (IntLit 1)]),
      Assign (Name ''dataset_info'')
        (method_call ''TabularDataset'' ''create_model''
          [StrLit ''scikit_learn_model/iris.csv'',
           Keyword ''read_kwargs'' (Call (Name ''dict'') [Keyword ''header'' (IntLit 1)])]) ]"

definition sklearn_cell_annotate :: "stmt list" where
  "sklearn_cell_annotate =
    [ Expr (method_call ''dataset_info'' ''add_alternate_identifier''
        [Keyword ''identifier'' (StrLit ''https://archive.ics.uci.edu/ml/datasets/Iris''),
         Keyword ''identifier_type'' (StrLit ''URL'')]),
      Expr (method_call ''dataset_info'' ''add_related_identifier''
        [Keyword ''identifier'' (StrLit ''10.1111/j.1469-1809.1936.tb02137.x''),
         Keyword ''identifier_type'' (StrLit ''DOI''),
         Keyword ''relation_type'' (StrLit ''IsDescribedBy'')]),
      Expr (method_call ''dataset_info'' ''set_domains'' [ListLit [StrLit ''biology'']]),
      Expr (method_call ''dataset_info'' ''annotate_column''
        [StrLit ''sepal_length'', Keyword ''description'' (StrLit ''Length of sepal''),
         Keyword ''units'' (StrLit ''cm'')]),
      Expr (method_call ''dataset_info'' ''annotate_column''
        [StrLit ''sepal_width'', Keyword ''description'' (StrLit ''Width of sepal''),
         Keyword ''units'' (StrLit ''cm'')]),
      Expr (method_call ''dataset_info'' ''annotate_column''
        [StrLit ''petal_length'', Keyword ''description'' (StrLit ''Length of petal''),
         Keyword ''units'' (StrLit ''cm'')]),
      Expr (method_call ''dataset_info'' ''annotate_column''
        [StrLit ''petal_width'', Keyword ''description'' (StrLit ''Width of petal''),
         Keyword ''units'' (StrLit ''cm'')]),
      Expr (method_call ''dataset_info'' ''annotate_column''
        [StrLit ''species'', Keyword ''description'' (StrLit ''Species''),
         Keyword ''data_type'' (StrLit ''string'')]),
      Expr (method_call ''dataset_info'' ''mark_inputs''
        [Subscript (Attribute (Name ''data'') ''columns'') (Slice None (Some (IntLit (- 1))))]),
      Expr (method_call ''dataset_info'' ''mark_labels''
        [Subscript (Attribute (Name ''data'') ''columns'') (Slice (Some (IntLit (- 1))) None)]),
      Expr (method_call ''dataset_info'' ''set_title'' [StrLit ''Iris Dataset'']),
      Expr (method_call ''dataset_info'' ''set_name'' [StrLit ''iris_dataset'']),
      Expr (method_call ''dataset_info'' ''set_authors'' [ListLit [StrLit ''Marshall, R.A.'']]) ]"

definition sklearn_cell_print_dataset :: "stmt list" where
  "sklearn_cell_print_dataset =
    [ print_call
        [method_call ''json'' ''dumps''
          [method_call ''dataset_info'' ''to_dict'' [], Keyword ''indent'' (IntLit 2)]] ]"

definition sklearn_cell_train :: "stmt list" where
  "sklearn_cell_train =
    [ ImportFrom ''sklearn.svm'' [(''SVC'', ''SVC'')],
      Import ''pickle'' ''pkl'',
      Import ''pandas'' ''pd'',
      Assign (Name ''data'')
        (method_call ''pd'' ''read_csv''
          [StrLit ''scikit_learn_model/iris.csv'', Keyword ''header'' (IntLit 1)]),
      print_call
        [Call (Attribute (StrLit ''Loaded {} rows with {} columns:'') ''format'')
           [Call (Name ''len'') [Name ''data''],
            Call (Name ''len'') [Attribute (Name ''data'') ''columns'']],
         Call (Attribute (Attribute (Name ''data'') ''columns'') ''tolist'') []],
      Assign (Name ''model'')
        (Call (Name ''SVC'')
          [Keyword ''kernel'' (StrLit ''linear''), Keyword ''C'' (IntLit 1),
           Keyword ''probability'' (BoolLit True)]),
      Expr (method_call ''model'' ''fit''
        [Subscript (Attribute (Name ''data'') ''values'')
           (Tuple [Slice None None, Slice None (Some (IntLit (- 1)))]),
         Subscript (Attribute (Name ''data'') ''values'')
           (Tuple [Slice None None, IntLit (- 1)])]),
      print_call [StrLit ''Trained a SVC model''],
      With (Call (Name ''open'') [StrLit ''scikit_learn_model/model.pkl'', StrLit ''wb''])
           (Some (Name ''fp''))
        [ Expr (method_call ''pkl'' ''dump'' [Name ''model'', Name ''fp'']) ],
      print_call [StrLit ''Saved model to disk''] ]"

definition sklearn_cell_describe :: "stmt list" where
  "sklearn_cell_describe =
    [ ImportFrom ''dlhub_sdk.models.servables.sklearn''
        [(''ScikitLearnModel'', ''ScikitLearnModel'')],
      Assign (Name ''model_info'')
        (method_call ''ScikitLearnModel'' ''create_model''
          [StrLit ''scikit_learn_model/model.pkl'',
           Keyword ''n_input_columns''
             (BinOp (Call (Name ''len'') [Attribute (Name ''data'') ''columns'']) Sub (IntLit 1)),
           Keyword ''classes''
             (Call (Attribute (Subscript (Name ''data'') (StrLit ''species'')) ''unique'') [])]) ]"

definition sklearn_cell_enrich :: "stmt list" where
  "sklearn_cell_enrich =
    [ Expr (method_call ''model_info'' ''set_title'' [StrLit ''Example Scikit-Learn Model'']),
      Expr (method_call ''model_info'' ''set_name'' [StrLit ''iris_svm'']),
      Expr (method_call ''model_info'' ''set_domains'' [ListLit [StrLit ''biology'']]) ]"

definition sklearn_cell_print :: "stmt list" where
  "sklearn_cell_print =
    [ print_call
        [method_call ''json'' ''dumps''
          [method_call ''model_info'' ''to_dict'' [], Keyword ''indent'' (IntLit 2)]] ]"

definition sklearn_cell_publish :: "stmt list" where
  "sklearn_cell_publish =
    [ Import ''dlhub_sdk'' ''dlhub_sdk'',
      Assign (Name ''dl'') (method_call ''dlhub_sdk'' ''DLHubClient'' []),
      Assign (Name ''task_id'') (method_call ''dl'' ''publish_servable'' [Name ''model_info'']),
      print_call [Name ''task_id''] ]"

definition sklearn_notebook :: notebook where
  "sklearn_notebook =
    [ Markdown, Markdown, Markdown,
      Code sklearn_cell_dataset,
      Markdown,
      Code sklearn_cell_annotate,
      Markdown,
      Code sklearn_cell_print_dataset,
      Markdown,
      Code sklearn_cell_train,
      Markdown,
      Code sklearn_cell_describe,
      Markdown,
      Code sklearn_cell_enrich,
      Markdown,
      Code sklearn_cell_print,
      Markdown,
      Code sklearn_cell_publish,
      Code [] ]"

definition notebooks :: "notebook list" where
  "notebooks = [keras_notebook, sklearn_notebook]"


section \<open>Reading the notebooks\<close>

text \<open>The code of a notebook: the statements of its code cells, in cell order.\<close>

fun cell_stmts :: "cell \<Rightarrow> stmt list" where
  "cell_stmts Markdown = []"
| "cell_stmts (Code ss) = ss"

definition program :: "notebook \<Rightarrow> stmt list" where
  "program nb = concat (map cell_stmts nb)"

text \<open>Every expression that occurs in an expression, itself first.\<close>

fun subexprs :: "expr \<Rightarrow> expr list" where
  "subexprs (Attribute e a) = Attribute e a # subexprs e"
| "subexprs (Call f args) = Call f args # subexprs f @ concat (map subexprs args)"
| "subexprs (Keyword k v) = Keyword k v # subexprs v"
| "subexprs (Subscript e i) = Subscript e i # subexprs e @ subexprs i"
| "subexprs (Slice lo hi) =
     Slice lo hi # (case lo of None \<Rightarrow> [] | Some e \<Rightarrow> subexprs e)
                 @ (case hi of None \<Rightarrow> [] | Some e \<Rightarrow> subexprs e)"
| "subexprs (Tuple es) = Tuple es # concat (map subexprs es)"
| "subexprs (ListLit es) = ListLit es # concat (map subexprs es)"
| "subexprs (BinOp a op b) = BinOp a op b # subexprs a @ subexprs b"
| "subexprs (CompareEq a b) = CompareEq a b # subexprs a @ subexprs b"
| "subexprs e = [e]"

text \<open>Every statement that occurs in a block, nested blocks included, in source order.\<close>

fun substmts :: "stmt \<Rightarrow> stmt list" where
  "substmts (If c a b) = If c a b # concat (map substmts a) @ concat (map substmts b)"
| "substmts (With e v body) = With e v body # concat (map substmts body)"
| "substmts (Try body hs) = Try body hs # concat (map substmts body) @ concat (map substmts hs)"
| "substmts (While c body) = While c body # concat (map substmts body)"
| "substmts (For t it body) = For t it body # concat (map substmts body)"
| "substmts (FunctionDef f ps body) = FunctionDef f ps body # concat (map substmts body)"
| "substmts (ClassDef c bs body) = ClassDef c bs body # concat (map substmts body)"
| "substmts s = [s]"

definition all_stmts :: "stmt list \<Rightarrow> stmt list" where
  "all_stmts ss = concat (map substmts ss)"

text \<open>The expressions a statement itself holds (not those of its nested blocks).\<close>

fun own_exprs :: "stmt \<Rightarrow> expr list" where
  "own_exprs (Assign t v) = [t, v]"
| "own_exprs (AugAssign t op v) = [t, v]"
| "own_exprs (Expr e) = [e]"
| "own_exprs (If c a b) = [c]"
| "own_exprs (With e v body) = e # (case v of None \<Rightarrow> [] | Some x \<Rightarrow> [x])"
| "own_exprs (While c body) = [c]"
| "own_exprs (For t it body) = [t, it]"
| "own_exprs (Raise e) = [e]"
| "own_exprs (ClassDef c bs body) = bs"
| "own_exprs s = []"

definition stmt_exprs :: "stmt \<Rightarrow> expr list" where
  "stmt_exprs s = concat (map subexprs (concat (map own_exprs (substmts s))))"

definition all_exprs :: "stmt list \<Rightarrow> expr list" where
  "all_exprs ss = concat (map stmt_exprs ss)"

text \<open>
  The calls of the form \<^verbatim>\<open>receiver.method(args)\<close>, as triples, and the variable at the
  root of a chain of attribute and item accesses.
\<close>

fun as_method_call :: "expr \<Rightarrow> (expr \<times> string \<times> expr list) list" where
  "as_method_call (Call (Attribute r m) args) = [(r, m, args)]"
| "as_method_call e = []"

definition method_calls :: "stmt list \<Rightarrow> (expr \<times> string \<times> expr list) list" where
  "method_calls ss = concat (map as_method_call (all_exprs ss))"

fun root_name :: "expr \<Rightarrow> string option" where
  "root_name (Name x) = Some x"
| "root_name (Attribute e a) = root_name e"
| "root_name (Subscript e i) = root_name e"
| "root_name e = None"

text \<open>
  The string a literal holds, every string literal of a block, and the arguments of a
  call by kind: those given by position, and the values given for a keyword.
\<close>

fun literal_of :: "expr \<Rightarrow> string list" where
  "literal_of (StrLit s) = [s]"
| "literal_of e = []"

definition string_literals :: "stmt list \<Rightarrow> string list" where
  "string_literals ss = concat (map literal_of (all_exprs ss))"

fun is_keyword :: "expr \<Rightarrow> bool" where
  "is_keyword (Keyword k v) = True"
| "is_keyword e = False"

definition positional :: "expr list \<Rightarrow> expr list" where
  "positional args = filter (\<lambda>a. \<not> is_keyword a) args"

fun keyword_value :: "string \<Rightarrow> expr \<Rightarrow> expr list" where
  "keyword_value k (Keyword k' v) = (if k = k' then [v] else [])"
| "keyword_value k e = []"

definition keyword_values :: "string \<Rightarrow> expr list \<Rightarrow> expr list" where
  "keyword_values k args = concat (map (keyword_value k) args)"

text \<open>The positions in a list at which a predicate holds.\<close>

definition positions :: "('a \<Rightarrow> bool) \<Rightarrow> 'a list \<Rightarrow> nat list" where
  "positions P xs = map fst (filter (\<lambda>(i, x). P x) (enumerate 0 xs))"


section \<open>Bindings, reads and SDK objects\<close>

text \<open>The values assigned to a variable, in source order.\<close>

fun binding_of :: "string \<Rightarrow> stmt \<Rightarrow> expr list" where
  "binding_of x (Assign t v) = (if t = Name x then [v] else [])"
| "binding_of x s = []"

definition bindings :: "string \<Rightarrow> stmt list \<Rightarrow> expr list" where
  "bindings x ss = concat (map (binding_of x) (all_stmts ss))"

text \<open>
  The names a statement assigns: the names in the target of an assignment (a tuple
  target assigns each of its names), of an augmented assignment, of \<^verbatim>\<open>with ... as\<close> and
  of a \<^verbatim>\<open>for\<close> loop.
\<close>

fun target_names :: "expr \<Rightarrow> string list" where
  "target_names (Name x) = [x]"
| "target_names (Tuple es) = concat (map target_names es)"
| "target_names (ListLit es) = concat (map target_names es)"
| "target_names e = []"

fun assigned_by :: "stmt \<Rightarrow> string list" where
  "assigned_by (Assign t v) = target_names t"
| "assigned_by (AugAssign t op v) = target_names t"
| "assigned_by (With e v body) = (case v of None \<Rightarrow> [] | Some x \<Rightarrow> target_names x)"
| "assigned_by (For t it body) = target_names t"
| "assigned_by s = []"

definition assigned_names :: "stmt list \<Rightarrow> string list" where
  "assigned_names ss = concat (map assigned_by (all_stmts ss))"

text \<open>
  The expressions a statement evaluates. An assignment evaluates its right-hand side and,
  in a target, the object and key of an item or attribute that is assigned; a plain name
  that is assigned is written, not read.
\<close>

fun target_reads :: "expr \<Rightarrow> expr list" where
  "target_reads (Tuple es) = concat (map target_reads es)"
| "target_reads (ListLit es) = concat (map target_reads es)"
| "target_reads (Subscript e i) = subexprs e @ subexprs i"
| "target_reads (Attribute e a) = subexprs e"
| "target_reads e = []"

fun reads :: "stmt \<Rightarrow> expr list" where
  "reads (Assign t v) = target_reads t @ subexprs v"
| "reads (With e v body) = subexprs e"
| "reads (For t it body) = target_reads t @ subexprs it"
| "reads s = concat (map subexprs (own_exprs s))"

definition readers :: "string \<Rightarrow> stmt list \<Rightarrow> stmt list" where
  "readers x ss = filter (\<lambda>s. Name x \<in> set (reads s)) (all_stmts ss)"

text \<open>
  The names that stand for objects of the SDK: what is imported from the package
  \<^verbatim>\<open>dlhub_sdk\<close>, and every variable assigned the result of a call on such a name.
  Assigning anything else to a variable takes it out again.
\<close>

definition top_package :: "string \<Rightarrow> string" where
  "top_package m = takeWhile (\<lambda>c. c \<noteq> CHR ''.'') m"

fun is_call_on :: "string list \<Rightarrow> expr \<Rightarrow> bool" where
  "is_call_on ns (Call f args) = (case root_name f of None \<Rightarrow> False | Some r \<Rightarrow> r \<in> set ns)"
| "is_call_on ns e = False"

fun sdk_bind :: "string list \<Rightarrow> stmt \<Rightarrow> string list" where
  "sdk_bind ns (Import m a) =
     (if top_package m = ''dlhub_sdk'' then List.insert a ns else removeAll a ns)"
| "sdk_bind ns (ImportFrom m xs) =
     (if top_package m = ''dlhub_sdk'' then List.union (map snd xs) ns
      else filter (\<lambda>n. n \<notin> set (map snd xs)) ns)"
| "sdk_bind ns (Assign (Name v) e) =
     (if is_call_on ns e then List.insert v ns else removeAll v ns)"
| "sdk_bind ns s = ns"

definition sdk_names :: "stmt list \<Rightarrow> string list" where
  "sdk_names ss = foldl sdk_bind [] (all_stmts ss)"

text \<open>
  The package itself is bound by a plain \<^verbatim>\<open>import\<close>; the other SDK names are classes and
  objects. \<open>sdk_calls\<close> are the method calls whose receiver is rooted in a class or an
  object of the SDK; \<open>sdk_constructors\<close> are the attributes of the package that are called.
\<close>

fun sdk_module :: "stmt \<Rightarrow> string list" where
  "sdk_module (Import m a) = (if top_package m = ''dlhub_sdk'' then [a] else [])"
| "sdk_module s = []"

definition sdk_modules :: "stmt list \<Rightarrow> string list" where
  "sdk_modules ss = remdups (concat (map sdk_module (all_stmts ss)))"

definition sdk_objects :: "stmt list \<Rightarrow> string list" where
  "sdk_objects ss = filter (\<lambda>x. x \<notin> set (sdk_modules ss)) (sdk_names ss)"

definition rooted_in :: "string list \<Rightarrow> expr \<Rightarrow> bool" where
  "rooted_in ns e = (case root_name e of None \<Rightarrow> False | Some x \<Rightarrow> x \<in> set ns)"

definition sdk_calls :: "stmt list \<Rightarrow> (expr \<times> string \<times> expr list) list" where
  "sdk_calls ss = filter (\<lambda>(r, m, args). rooted_in (sdk_objects ss) r) (method_calls ss)"

definition sdk_methods :: "stmt list \<Rightarrow> string list" where
  "sdk_methods ss = remdups (map (\<lambda>(r, m, args). m) (sdk_calls ss))"

definition sdk_constructors :: "stmt list \<Rightarrow> string list" where
  "sdk_constructors ss =
     remdups (map (\<lambda>(r, m, args). m)
       (filter (\<lambda>(r, m, args). rooted_in (sdk_modules ss) r) (method_calls ss)))"

text \<open>The assignments to items of SDK objects (\<^verbatim>\<open>obj[k]... = v\<close>).\<close>

fun sdk_item_assignment :: "string list \<Rightarrow> stmt \<Rightarrow> stmt list" where
  "sdk_item_assignment ns (Assign (Subscript e i) v) =
     (case root_name e of None \<Rightarrow> [] | Some x \<Rightarrow> if x \<in> set ns then [Assign (Subscript e i) v] else [])"
| "sdk_item_assignment ns s = []"

definition sdk_item_assignments :: "stmt list \<Rightarrow> stmt list" where
  "sdk_item_assignments ss = concat (map (sdk_item_assignment (sdk_names ss)) (all_stmts ss))"

text \<open>The operations section 6 of the specification lists.\<close>

definition spec_operations :: "string list" where
  "spec_operations =
     [''create_model'', ''set_title'', ''set_name'', ''set_domains'', ''annotate_column'',
      ''mark_inputs'', ''mark_labels'', ''to_dict'', ''publish_servable'']"

definition only_spec_operations :: "stmt list \<Rightarrow> bool" where
  "only_spec_operations ss = list_all (\<lambda>m. m \<in> set spec_operations) (sdk_methods ss)"


section \<open>The stages of a notebook\<close>

text \<open>
  The methods called directly on a variable, and the argument lists of the calls of a
  method of a variable.
\<close>

definition methods_on :: "string \<Rightarrow> stmt list \<Rightarrow> string list" where
  "methods_on x ss =
     map (\<lambda>(r, m, args). m) (filter (\<lambda>(r, m, args). r = Name x) (method_calls ss))"

definition method_args :: "string \<Rightarrow> string \<Rightarrow> stmt list \<Rightarrow> expr list list" where
  "method_args x m ss =
     map (\<lambda>(r, m', args). args)
       (filter (\<lambda>(r, m', args). r = Name x \<and> m' = m) (method_calls ss))"

text \<open>
  The stages of publishing the descriptor \<open>d\<close>: a statement trains when it calls
  \<^verbatim>\<open>fit\<close>, creates \<open>d\<close> when it assigns \<open>d\<close> the result of a \<^verbatim>\<open>create_model\<close> call,
  enriches \<open>d\<close> when it calls a \<^verbatim>\<open>set_...\<close> method of \<open>d\<close> or assigns an item of \<open>d\<close>,
  and publishes \<open>d\<close> when it passes \<open>d\<close> to \<^verbatim>\<open>publish_servable\<close>.
\<close>

definition invokes :: "string \<Rightarrow> stmt \<Rightarrow> bool" where
  "invokes m s = (m \<in> set (map (\<lambda>(r, m', args). m') (method_calls [s])))"

definition trains :: "stmt \<Rightarrow> bool" where
  "trains s = invokes ''fit'' s"

fun creates :: "string \<Rightarrow> stmt \<Rightarrow> bool" where
  "creates d (Assign t (Call (Attribute r m) args)) = (t = Name d \<and> m = ''create_model'')"
| "creates d s = False"

definition enriches :: "string \<Rightarrow> stmt \<Rightarrow> bool" where
  "enriches d s =
     (list_ex (\<lambda>m. take 4 m = ''set_'') (methods_on d [s])
      \<or> sdk_item_assignment [d] s \<noteq> [])"

definition publishes :: "string \<Rightarrow> stmt \<Rightarrow> bool" where
  "publishes d s =
     list_ex (\<lambda>(r, m, args). m = ''publish_servable'' \<and> args = [Name d]) (method_calls [s])"

definition stages :: "string \<Rightarrow> stmt list \<Rightarrow> nat list \<times> nat list \<times> nat list \<times> nat list" where
  "stages d ss =
     (positions trains ss, positions (creates d) ss, positions (enriches d) ss,
      positions (publishes d) ss)"

text \<open>
  The stages are in order when each of them occurs, every training statement comes
  before every creation, every creation before every enrichment, and every enrichment
  before every publication.
\<close>

definition before :: "nat list \<Rightarrow> nat list \<Rightarrow> bool" where
  "before xs ys = (xs \<noteq> [] \<and> ys \<noteq> [] \<and> list_all (\<lambda>x. list_all (\<lambda>y. x < y) ys) xs)"

fun in_order :: "nat list \<times> nat list \<times> nat list \<times> nat list \<Rightarrow> bool" where
  "in_order (ts, cs, es, ps) = (before ts cs \<and> before cs es \<and> before es ps)"

text \<open>
  A statement describes the inputs or outputs of the descriptor \<open>d\<close> when it calls
  \<^verbatim>\<open>annotate_column\<close>, \<^verbatim>\<open>mark_inputs\<close> or \<^verbatim>\<open>mark_labels\<close> on \<open>d\<close>, or assigns an item of
  \<open>d\<close> under a key \<^verbatim>\<open>input\<close> or \<^verbatim>\<open>output\<close>.
\<close>

fun item_keys :: "expr \<Rightarrow> string list" where
  "item_keys (Subscript e i) = item_keys e @ literal_of i"
| "item_keys e = []"

fun assigns_io_item :: "string \<Rightarrow> stmt \<Rightarrow> bool" where
  "assigns_io_item d (Assign t v) =
     (root_name t = Some d \<and> (''input'' \<in> set (item_keys t) \<or> ''output'' \<in> set (item_keys t)))"
| "assigns_io_item d s = False"

definition describes_io :: "string \<Rightarrow> stmt \<Rightarrow> bool" where
  "describes_io d s =
     (list_ex (\<lambda>m. m \<in> set [''annotate_column'', ''mark_inputs'', ''mark_labels''])
        (methods_on d [s])
      \<or> assigns_io_item d s)"

definition io_descriptions :: "string \<Rightarrow> stmt list \<Rightarrow> stmt list" where
  "io_descriptions d ss = filter (describes_io d) (all_stmts ss)"

text \<open>
  The four steps the specification gives for each notebook, for one descriptor \<open>d\<close>: a
  model is trained; \<open>d\<close> is created; \<open>d\<close> is given a title, domains and descriptions of
  inputs or outputs; and \<open>d\<close> is published. A notebook follows the four steps when one of
  its variables takes all of them.
\<close>

definition four_steps :: "string \<Rightarrow> stmt list \<Rightarrow> bool" where
  "four_steps d ss =
     (positions trains ss \<noteq> []
      \<and> positions (creates d) ss \<noteq> []
      \<and> ''set_title'' \<in> set (methods_on d ss)
      \<and> ''set_domains'' \<in> set (methods_on d ss)
      \<and> io_descriptions d ss \<noteq> []
      \<and> positions (publishes d) ss \<noteq> [])"

definition follows_four_steps :: "stmt list \<Rightarrow> bool" where
  "follows_four_steps ss = list_ex (\<lambda>d. four_steps d ss) (remdups (assigned_names ss))"

section \<open>Files and imports\<close>

text \<open>
  The uses the notebooks make of files they name: the calls that are handed the path of
  a file as a string literal, by what they do with that file. \<^verbatim>\<open>model.save(path)\<close> of
  Keras writes the model, \<^verbatim>\<open>read_csv(path)\<close> of pandas reads a table,
  \<^verbatim>\<open>create_model(path, ...)\<close> of the SDK inspects the file it is given, and
  \<^verbatim>\<open>open(path, mode)\<close> reads or writes as its mode says. Calls that name no file, such
  as \<^verbatim>\<open>mnist.load_data()\<close> and \<^verbatim>\<open>dl.publish_servable(model_info)\<close>, are not uses of a
  named file, whatever files the library behind them touches on its own account.
\<close>

datatype access = Reads | Writes

fun string_args :: "expr list \<Rightarrow> string list" where
  "string_args (StrLit p # args) = p # string_args args"
| "string_args args = []"

text \<open>
  A mode of \<^verbatim>\<open>open\<close> reads when it holds \<^verbatim>\<open>r\<close> or \<^verbatim>\<open>+\<close> and writes when it holds
  \<^verbatim>\<open>w\<close>, \<^verbatim>\<open>a\<close>, \<^verbatim>\<open>x\<close> or \<^verbatim>\<open>+\<close>. The file is the first positional argument or the
  keyword \<^verbatim>\<open>file\<close>; the mode is the second positional argument or the keyword
  \<^verbatim>\<open>mode\<close>, and \<^verbatim>\<open>r\<close> when it is left out. A mode that is not a literal may do either.
\<close>

definition mode_accesses :: "string \<Rightarrow> access list" where
  "mode_accesses mode =
     (if CHR ''r'' \<in> set mode \<or> CHR ''+'' \<in> set mode then [Reads] else [])
     @ (if CHR ''w'' \<in> set mode \<or> CHR ''a'' \<in> set mode \<or> CHR ''x'' \<in> set mode
           \<or> CHR ''+'' \<in> set mode
        then [Writes] else [])"

definition open_file :: "expr list \<Rightarrow> string list" where
  "open_file args =
     concat (map literal_of (take 1 (positional args @ keyword_values ''file'' args)))"

definition open_accesses :: "expr list \<Rightarrow> access list" where
  "open_accesses args =
     (case take 1 (drop 1 (positional args) @ keyword_values ''mode'' args) of
        [] \<Rightarrow> [Reads]
      | m # ms \<Rightarrow> (case literal_of m of [] \<Rightarrow> [Reads, Writes] | mode # x \<Rightarrow> mode_accesses mode))"

definition path_argument :: "expr list \<Rightarrow> string list" where
  "path_argument args = concat (map literal_of (take 1 (positional args)))"

fun file_access :: "expr \<Rightarrow> (access \<times> string) list" where
  "file_access (Call f args) =
     (case f of
        Name g \<Rightarrow>
          (if g = ''open''
           then concat (map (\<lambda>p. map (\<lambda>a. (a, p)) (open_accesses args)) (open_file args))
           else [])
      | Attribute r m \<Rightarrow>
          (if m = ''save'' then map (\<lambda>p. (Writes, p)) (path_argument args)
           else if m = ''read_csv'' \<or> m = ''create_model''
           then map (\<lambda>p. (Reads, p)) (path_argument args)
           else [])
      | _ \<Rightarrow> [])"
| "file_access e = []"

definition file_accesses :: "stmt list \<Rightarrow> (access \<times> string) list" where
  "file_accesses ss = concat (map file_access (all_exprs ss))"

text \<open>
  The extension of a path, and the two kinds of model artifact the specification names:
  an HDF5 file and a pickle file.
\<close>

definition extension :: "string \<Rightarrow> string" where
  "extension p = rev (takeWhile (\<lambda>c. c \<noteq> CHR ''.'') (rev p))"

definition is_model_artifact :: "string \<Rightarrow> bool" where
  "is_model_artifact p = (extension p = ''hd5'' \<or> extension p = ''pkl'')"

text \<open>The claim of the specification: every file a notebook names is a model artifact.\<close>

definition only_model_artifacts :: "stmt list \<Rightarrow> bool" where
  "only_model_artifacts ss = list_all (\<lambda>(a, p). is_model_artifact p) (file_accesses ss)"

text \<open>The modules a local name is imported from, and the names a notebook defines itself.\<close>

fun import_source :: "string \<Rightarrow> stmt \<Rightarrow> string list" where
  "import_source x (Import m a) = (if a = x then [m] else [])"
| "import_source x (ImportFrom m ns) = (if x \<in> set (map snd ns) then [m] else [])"
| "import_source x s = []"

definition imported_from :: "string \<Rightarrow> stmt list \<Rightarrow> string list" where
  "imported_from x ss = concat (map (import_source x) (all_stmts ss))"

fun defined_name :: "stmt \<Rightarrow> string list" where
  "defined_name (FunctionDef f ps body) = [f]"
| "defined_name (ClassDef c bs body) = [c]"
| "defined_name s = []"

definition definitions :: "stmt list \<Rightarrow> string list" where
  "definitions ss = concat (map defined_name (all_stmts ss))"

fun as_attribute :: "string \<Rightarrow> expr \<Rightarrow> expr list" where
  "as_attribute a (Attribute e b) = (if a = b then [e] else [])"
| "as_attribute a e = []"

definition owners_of :: "string \<Rightarrow> stmt list \<Rightarrow> expr list" where
  "owners_of a ss = remdups (concat (map (as_attribute a) (all_exprs ss)))"


section \<open>Exceptions\<close>

text \<open>
  What the libraries and the remote service do is not part of the notebooks, so a run is
  taken relative to a world: at step \<open>t\<close> of the run, \<open>raises w t s\<close> says whether
  evaluating statement \<open>s\<close> raises an exception, \<open>truth w t c\<close> is the truth value of the
  condition \<open>c\<close>, and \<open>suppresses w t e\<close> says whether the context manager \<open>e\<close> swallows
  an exception raised in its block.
\<close>

record world =
  raises :: "nat \<Rightarrow> stmt \<Rightarrow> bool"
  truth :: "nat \<Rightarrow> expr \<Rightarrow> bool"
  suppresses :: "nat \<Rightarrow> expr \<Rightarrow> bool"

datatype outcome = Finished | Uncaught stmt

text \<open>
  A run carries the number of steps taken and the list of the statements whose exception
  was handled (caught by a \<^verbatim>\<open>try\<close> or swallowed by a context manager). A \<^verbatim>\<open>try\<close>
  is taken to catch every exception of its block. Loops may run forever, so the run
  takes fuel, and \<open>None\<close> is a run that did not end within it.
\<close>

type_synonym trail = "nat \<times> stmt list"

fun run :: "world \<Rightarrow> nat \<Rightarrow> trail \<Rightarrow> stmt list \<Rightarrow> (outcome \<times> trail) option" where
  "run w 0 tr ss = None"
| "run w (Suc n) tr [] = Some (Finished, tr)"
| "run w (Suc n) (t, cs) (s # ss) =
     (if raises w t s then Some (Uncaught s, (Suc t, cs))
      else case s of
          If c a b \<Rightarrow> run w n (Suc t, cs) ((if truth w t c then a else b) @ ss)
        | With e v body \<Rightarrow>
            (case run w n (Suc t, cs) body of
               None \<Rightarrow> None
             | Some (Finished, tr') \<Rightarrow> run w n tr' ss
             | Some (Uncaught x, (t', cs')) \<Rightarrow>
                 if suppresses w t e then run w n (t', cs' @ [x]) ss
                 else Some (Uncaught x, (t', cs')))
        | Try body hs \<Rightarrow>
            (case run w n (Suc t, cs) body of
               None \<Rightarrow> None
             | Some (Finished, tr') \<Rightarrow> run w n tr' ss
             | Some (Uncaught x, (t', cs')) \<Rightarrow> run w n (t', cs' @ [x]) (hs @ ss))
        | While c body \<Rightarrow>
            (if truth w t c then run w n (Suc t, cs) (body @ While c body # ss)
             else run w n (Suc t, cs) ss)
        | For x it body \<Rightarrow>
            (if truth w t it then run w n (Suc t, cs) (body @ For x it body # ss)
             else run w n (Suc t, cs) ss)
        | Raise e \<Rightarrow> Some (Uncaught (Raise e), (Suc t, cs))
        | ClassDef c bs body \<Rightarrow> run w n (Suc t, cs) (body @ ss)
        | _ \<Rightarrow> run w n (Suc t, cs) ss)"

text \<open>
  The statements that handle or provoke failures: \<^verbatim>\<open>try\<close>, the loops a retry needs,
  and \<^verbatim>\<open>raise\<close>. The conditions tested, and the context managers entered.
\<close>

fun handles_failure :: "stmt \<Rightarrow> bool" where
  "handles_failure (Try body hs) = True"
| "handles_failure (While c body) = True"
| "handles_failure (For x it body) = True"
| "handles_failure (Raise e) = True"
| "handles_failure s = False"

fun condition_of :: "stmt \<Rightarrow> expr list" where
  "condition_of (If c a b) = [c]"
| "condition_of (While c body) = [c]"
| "condition_of s = []"

definition conditions :: "stmt list \<Rightarrow> expr list" where
  "conditions ss = concat (map condition_of (all_stmts ss))"

fun manager_of :: "stmt \<Rightarrow> expr list" where
  "manager_of (With e v body) = [e]"
| "manager_of s = []"

definition managers :: "stmt list \<Rightarrow> expr list" where
  "managers ss = concat (map manager_of (all_stmts ss))"

text \<open>The one condition the notebooks test, and the one context manager they enter.\<close>

definition data_format_test :: expr where
  "data_format_test =
     CompareEq (method_call ''K'' ''image_data_format'' []) (StrLit ''channels_first'')"

definition pickle_file :: expr where
  "pickle_file = Call (Name ''open'') [StrLit ''scikit_learn_model/model.pkl'', StrLit ''wb'']"


section \<open>Arrays and slices\<close>

text \<open>
  A NumPy array is its shape and its elements in row-major order. Indexing the shape of
  a zero-dimensional array raises \<^verbatim>\<open>IndexError\<close>; reshaping to a shape of another size
  raises \<^verbatim>\<open>ValueError\<close>.
\<close>

datatype py_error = IndexError | ValueError

record 'a ndarray =
  shape :: "nat list"
  elems :: "'a list"

definition well_formed :: "'a ndarray \<Rightarrow> bool" where
  "well_formed a = (length (elems a) = prod_list (shape a))"

definition bind :: "py_error + 'a \<Rightarrow> ('a \<Rightarrow> py_error + 'b) \<Rightarrow> py_error + 'b" where
  "bind m f = (case m of Inl e \<Rightarrow> Inl e | Inr v \<Rightarrow> f v)"

definition shape0 :: "'a ndarray \<Rightarrow> py_error + nat" where
  "shape0 a = (case shape a of [] \<Rightarrow> Inl IndexError | n # rest \<Rightarrow> Inr n)"

definition reshape :: "'a ndarray \<Rightarrow> nat list \<Rightarrow> py_error + 'a ndarray" where
  "reshape a new_shape =
     (if prod_list new_shape = prod_list (shape a) then Inr (a\<lparr>shape := new_shape\<rparr>)
      else Inl ValueError)"

definition astype :: "('a \<Rightarrow> 'b) \<Rightarrow> 'a ndarray \<Rightarrow> 'b ndarray" where
  "astype f a = \<lparr>shape = shape a, elems = map f (elems a)\<rparr>"

text \<open>
  A slice bound of Python against a length \<open>n\<close>: a negative bound counts from the end,
  and every bound is clamped into \<open>0 .. n\<close>. \<open>py_slice lo hi xs\<close> is \<^verbatim>\<open>xs[lo:hi]\<close>, with
  \<open>None\<close> for a bound that is left out; \<open>slice_rows lo hi a\<close> is the same slice of an
  array along its first axis.
\<close>

definition slice_bound :: "int \<Rightarrow> nat \<Rightarrow> nat" where
  "slice_bound i n = (if i < 0 then nat (max 0 (int n + i)) else min (nat i) n)"

definition slice_start :: "int option \<Rightarrow> nat \<Rightarrow> nat" where
  "slice_start lo n = (case lo of None \<Rightarrow> 0 | Some i \<Rightarrow> slice_bound i n)"

definition slice_stop :: "int option \<Rightarrow> nat \<Rightarrow> nat" where
  "slice_stop hi n = (case hi of None \<Rightarrow> n | Some i \<Rightarrow> slice_bound i n)"

definition py_slice :: "int option \<Rightarrow> int option \<Rightarrow> 'a list \<Rightarrow> 'a list" where
  "py_slice lo hi xs =
     (let s = slice_start lo (length xs); e = slice_stop hi (length xs)
      in take (e - s) (drop s xs))"

definition slice_rows :: "int option \<Rightarrow> int option \<Rightarrow> 'a ndarray \<Rightarrow> py_error + 'a ndarray" where
  "slice_rows lo hi a =
     (case shape a of
        [] \<Rightarrow> Inl IndexError
      | n # rest \<Rightarrow>
          (let s = slice_start lo n; e = slice_stop hi n; row = prod_list rest
           in Inr \<lparr>shape = (e - s) # rest,
                   elems = take ((e - s) * row) (drop (s * row) (elems a))\<rparr>))"

section \<open>The training cell of the Keras notebook\<close>

definition num_classes :: nat where
  "num_classes = 10"

definition train_size :: int where
  "train_size = 100"

definition img_rows :: nat where
  "img_rows = 28"

definition img_cols :: nat where
  "img_cols = 28"

text \<open>
  The branch on \<^verbatim>\<open>K.image_data_format()\<close>: both image arrays are reshaped and
  \<^verbatim>\<open>input_shape\<close> is set. The result is the new \<^verbatim>\<open>x_train\<close>, the new \<^verbatim>\<open>x_test\<close> and
  \<^verbatim>\<open>input_shape\<close>.
\<close>

definition reshape_images ::
  "string \<Rightarrow> 'a ndarray \<Rightarrow> 'a ndarray \<Rightarrow> py_error + ('a ndarray \<times> 'a ndarray \<times> nat list)" where
  "reshape_images image_data_format x_train x_test =
     (if image_data_format = ''channels_first'' then
        bind (shape0 x_train) (\<lambda>n.
        bind (reshape x_train [n, 1, img_rows, img_cols]) (\<lambda>x_train'.
        bind (shape0 x_test) (\<lambda>m.
        bind (reshape x_test [m, 1, img_rows, img_cols]) (\<lambda>x_test'.
        Inr (x_train', x_test', [1, img_rows, img_cols])))))
      else
        bind (shape0 x_train) (\<lambda>n.
        bind (reshape x_train [n, img_rows, img_cols, 1]) (\<lambda>x_train'.
        bind (shape0 x_test) (\<lambda>m.
        bind (reshape x_test [m, img_rows, img_cols, 1]) (\<lambda>x_test'.
        Inr (x_train', x_test', [img_rows, img_cols, 1]))))))"

text \<open>
  The data the cell hands to the model. The conversion to \<^verbatim>\<open>float32\<close>, the division by
  255 and \<^verbatim>\<open>keras.utils.to_categorical\<close> belong to the libraries and are parameters:
  \<open>to_float32\<close> and \<open>div255\<close> act on one element, \<open>to_categorical\<close> on the label array.
\<close>

record ('x, 'y) model_data =
  input_shape :: "nat list"
  fit_x :: "'x ndarray"
  fit_y :: "'y ndarray"
  validation_data :: "'x ndarray \<times> 'y ndarray"
  evaluate_x :: "'x ndarray"
  evaluate_y :: "'y ndarray"

definition training_cell ::
  "string \<Rightarrow> ('a \<Rightarrow> 'x) \<Rightarrow> ('x \<Rightarrow> 'x) \<Rightarrow> ('l ndarray \<Rightarrow> nat \<Rightarrow> py_error + 'y ndarray) \<Rightarrow>
   ('a ndarray \<times> 'l ndarray) \<times> ('a ndarray \<times> 'l ndarray) \<Rightarrow> py_error + ('x, 'y) model_data" where
  "training_cell image_data_format to_float32 div255 to_categorical loaded =
     (case loaded of ((x_train, y_train), (x_test, y_test)) \<Rightarrow>
        bind (reshape_images image_data_format x_train x_test) (\<lambda>(x_train, x_test, input_shape).
        let x_train = astype to_float32 x_train;
            x_test = astype to_float32 x_test;
            x_train = astype div255 x_train;
            x_test = astype div255 x_test
        in
        bind (to_categorical y_train num_classes) (\<lambda>y_train.
        bind (to_categorical y_test num_classes) (\<lambda>y_test.
        bind (slice_rows None (Some train_size) x_train) (\<lambda>x_fit.
        bind (slice_rows None (Some train_size) y_train) (\<lambda>y_fit.
        Inr \<lparr>input_shape = input_shape, fit_x = x_fit, fit_y = y_fit,
             validation_data = (x_test, y_test),
             evaluate_x = x_test, evaluate_y = y_test\<rparr>))))))"

section \<open>The columns of the scikit-learn dataset\<close>

text \<open>
  \<^verbatim>\<open>dataset_info.mark_inputs(data.columns[:-1])\<close> and
  \<^verbatim>\<open>dataset_info.mark_labels(data.columns[-1:])\<close>: the columns handed to the descriptor.
\<close>

definition marked_inputs :: "'c list \<Rightarrow> 'c list" where
  "marked_inputs columns = py_slice None (Some (- 1)) columns"

definition marked_labels :: "'c list \<Rightarrow> 'c list" where
  "marked_labels columns = py_slice (Some (- 1)) None columns"

section \<open>Named statements and sample data\<close>

text \<open>The two statements both notebooks end with, and the statement that prints a descriptor.\<close>

definition publish_stmt :: stmt where
  "publish_stmt =
     Assign (Name ''task_id'') (method_call ''dl'' ''publish_servable'' [Name ''model_info''])"

definition print_task_id :: stmt where
  "print_task_id = print_call [Name ''task_id'']"

definition json_print :: "string \<Rightarrow> stmt" where
  "json_print d =
     print_call [method_call ''json'' ''dumps''
       [method_call d ''to_dict'' [], Keyword ''indent'' (IntLit 2)]]"

text \<open>
  The function names called in the arguments of \<^verbatim>\<open>model.add(...)\<close>, the names of the
  keyword arguments of a call, and the class and method that produced a variable.
\<close>

fun callee_name :: "expr \<Rightarrow> string list" where
  "callee_name (Call (Name f) args) = [f]"
| "callee_name e = []"

definition added_layers :: "stmt list \<Rightarrow> string list" where
  "added_layers ss = concat (map (concat \<circ> map callee_name) (method_args ''model'' ''add'' ss))"

fun keyword_name :: "expr \<Rightarrow> string list" where
  "keyword_name (Keyword k v) = [k]"
| "keyword_name e = []"

definition keyword_names :: "expr list \<Rightarrow> string list" where
  "keyword_names args = concat (map keyword_name args)"

definition made_by :: "string \<Rightarrow> stmt list \<Rightarrow> (expr \<times> string) list" where
  "made_by x ss =
     map (\<lambda>(r, m, args). (r, m)) (concat (map as_method_call (bindings x ss)))"

text \<open>
  A block is plain when no statement in it handles or provokes a failure; a world leaves
  a block unsuppressed when no context manager of the block ever swallows an exception.
\<close>

definition plain :: "stmt list \<Rightarrow> bool" where
  "plain ss = (\<forall>s \<in> set (all_stmts ss). \<not> handles_failure s)"

definition unsuppressed :: "world \<Rightarrow> stmt list \<Rightarrow> bool" where
  "unsuppressed w ss = (\<forall>t. \<forall>e \<in> set (managers ss). \<not> suppresses w t e)"

text \<open>
  Sample inputs: a world in which the publication fails and nothing else does; two
  images and one image of 28 by 28 pixels; 150 training images, the pixels of image
  \<open>i\<close> all \<open>i\<close>, with labels \<open>i mod 10\<close>, and one test label; a one-hot encoding of
  labels, with the encoded labels; the data the training cell hands to the model on these
  inputs; and the columns the scikit-learn notebook annotates.
\<close>

definition publish_fails :: world where
  "publish_fails =
     \<lparr>raises = (\<lambda>t s. invokes ''publish_servable'' s),
      truth = (\<lambda>t c. False),
      suppresses = (\<lambda>t e. False)\<rparr>"

definition two_images :: "nat ndarray" where
  "two_images = \<lparr>shape = [2, 28, 28], elems = replicate 1568 0\<rparr>"

definition one_image :: "nat ndarray" where
  "one_image = \<lparr>shape = [1, 28, 28], elems = replicate 784 0\<rparr>"

definition many_images :: "nat ndarray" where
  "many_images = \<lparr>shape = [150, 28, 28], elems = map (\<lambda>j. j div 784) [0..<117600]\<rparr>"

definition many_labels :: "nat ndarray" where
  "many_labels = \<lparr>shape = [150], elems = map (\<lambda>i. i mod 10) [0..<150]\<rparr>"

definition one_label :: "nat ndarray" where
  "one_label = \<lparr>shape = [1], elems = [7]\<rparr>"

definition one_hot_rows :: "nat list \<Rightarrow> nat \<Rightarrow> nat list" where
  "one_hot_rows ls n = concat (map (\<lambda>l. map (\<lambda>i. if i = l then 1 else 0) [0..<n]) ls)"

definition one_hot :: "nat ndarray \<Rightarrow> nat \<Rightarrow> py_error + nat ndarray" where
  "one_hot y n =
     (if list_all (\<lambda>l. l < n) (elems y)
      then Inr \<lparr>shape = shape y @ [n], elems = one_hot_rows (elems y) n\<rparr>
      else Inl IndexError)"

definition many_encoded :: "nat ndarray" where
  "many_encoded = \<lparr>shape = [150, 10], elems = one_hot_rows (map (\<lambda>i. i mod 10) [0..<150]) 10\<rparr>"

definition one_encoded :: "nat ndarray" where
  "one_encoded = \<lparr>shape = [1, 10], elems = one_hot_rows [7] 10\<rparr>"

definition sample_run :: "(nat, nat) model_data" where
  "sample_run =
     \<lparr>input_shape = [28, 28, 1],
      fit_x = \<lparr>shape = [100, 28, 28, 1], elems = map (\<lambda>j. Suc (j div 784)) [0..<78400]\<rparr>,
      fit_y = \<lparr>shape = [100, 10], elems = take 1000 (elems many_encoded)\<rparr>,
      validation_data = (\<lparr>shape = [1, 28, 28, 1], elems = replicate 784 1\<rparr>, one_encoded),
      evaluate_x = \<lparr>shape = [1, 28, 28, 1], elems = replicate 784 1\<rparr>,
      evaluate_y = one_encoded\<rparr>"

definition iris_columns :: "string list" where
  "iris_columns =
     [''sepal_length'', ''sepal_width'', ''petal_length'', ''petal_width'', ''species'']"

section \<open>Publishing\<close>

text \<open>
  Claim C1. In each of the two notebooks the last two statements are
  \<^verbatim>\<open>task_id = dl.publish_servable(model_info)\<close> and \<^verbatim>\<open>print(task_id)\<close>. That assignment
  is the only statement of the notebook that calls \<^verbatim>\<open>publish_servable\<close>; its receiver
  \<^verbatim>\<open>dl\<close> is bound once, to \<^verbatim>\<open>dlhub_sdk.DLHubClient()\<close>; its argument \<^verbatim>\<open>model_info\<close> is
  the descriptor a \<^verbatim>\<open>create_model\<close> call produced at an earlier position; each of
  \<^verbatim>\<open>model_info\<close>, \<^verbatim>\<open>dl\<close> and \<^verbatim>\<open>task_id\<close> is assigned once; and the only statement that
  reads the returned \<^verbatim>\<open>task_id\<close> is the \<^verbatim>\<open>print\<close>.
\<close>

theorem C1_publish_is_the_final_step:
  "last (butlast (program keras_notebook)) = publish_stmt
   \<and> last (program keras_notebook) = print_task_id
   \<and> last (butlast (program sklearn_notebook)) = publish_stmt
   \<and> last (program sklearn_notebook) = print_task_id
   \<and> filter (invokes ''publish_servable'') (all_stmts (program keras_notebook)) = [publish_stmt]
   \<and> filter (invokes ''publish_servable'') (all_stmts (program sklearn_notebook)) = [publish_stmt]
   \<and> bindings ''dl'' (program keras_notebook) = [method_call ''dlhub_sdk'' ''DLHubClient'' []]
   \<and> bindings ''dl'' (program sklearn_notebook) = [method_call ''dlhub_sdk'' ''DLHubClient'' []]
   \<and> made_by ''model_info'' (program keras_notebook) = [(Name ''KerasModel'', ''create_model'')]
   \<and> made_by ''model_info'' (program sklearn_notebook) =
        [(Name ''ScikitLearnModel'', ''create_model'')]
   \<and> positions (creates ''model_info'') (program keras_notebook) = [39]
   \<and> positions (publishes ''model_info'') (program keras_notebook) = [50]
   \<and> positions (creates ''model_info'') (program sklearn_notebook) = [30]
   \<and> positions (publishes ''model_info'') (program sklearn_notebook) = [37]
   \<and> filter (\<lambda>x. x \<in> set [''dl'', ''model_info'', ''task_id''])
        (assigned_names (program keras_notebook)) = [''model_info'', ''dl'', ''task_id'']
   \<and> filter (\<lambda>x. x \<in> set [''dl'', ''model_info'', ''task_id''])
        (assigned_names (program sklearn_notebook)) = [''model_info'', ''dl'', ''task_id'']
   \<and> readers ''task_id'' (program keras_notebook) = [print_task_id]
   \<and> readers ''task_id'' (program sklearn_notebook) = [print_task_id]"
  by code_simp

text \<open>
  Claim C2. In each notebook the statements that train the model, create the published
  descriptor \<^verbatim>\<open>model_info\<close>, enrich it and publish it stand at the positions given, each
  stage wholly before the next; the methods called on the descriptor between creation
  and publication are \<^verbatim>\<open>set_title\<close>, \<^verbatim>\<open>set_name\<close>, \<^verbatim>\<open>set_domains\<close> and \<^verbatim>\<open>to_dict\<close>;
  \<^verbatim>\<open>publish_servable\<close> is called once, on the client \<^verbatim>\<open>dl = dlhub_sdk.DLHubClient()\<close>. The
  scikit-learn notebook also builds a dataset descriptor, before it trains the model;
  that descriptor is never published.
\<close>

theorem C2_pipeline_in_order:
  "stages ''model_info'' (program keras_notebook) = ([33], [39], [40, 41, 42, 43, 44], [50])
   \<and> in_order (stages ''model_info'' (program keras_notebook))
   \<and> stages ''model_info'' (program sklearn_notebook) = ([25], [30], [31, 32, 33], [37])
   \<and> in_order (stages ''model_info'' (program sklearn_notebook))
   \<and> methods_on ''model_info'' (program keras_notebook) =
        [''set_title'', ''set_name'', ''set_domains'', ''to_dict'']
   \<and> methods_on ''model_info'' (program sklearn_notebook) =
        [''set_title'', ''set_name'', ''set_domains'', ''to_dict'']
   \<and> positions (invokes ''publish_servable'') (program keras_notebook) = [50]
   \<and> positions (invokes ''publish_servable'') (program sklearn_notebook) = [37]
   \<and> bindings ''dl'' (program keras_notebook) = [method_call ''dlhub_sdk'' ''DLHubClient'' []]
   \<and> bindings ''dl'' (program sklearn_notebook) = [method_call ''dlhub_sdk'' ''DLHubClient'' []]
   \<and> method_args ''dl'' ''publish_servable'' (program keras_notebook) = [[Name ''model_info'']]
   \<and> method_args ''dl'' ''publish_servable'' (program sklearn_notebook) =
        [[Name ''model_info'']]
   \<and> positions (creates ''dataset_info'') (program sklearn_notebook) = [4]
   \<and> positions (publishes ''dataset_info'') (program sklearn_notebook) = []"
  by code_simp

section \<open>The operations of the SDK\<close>

text \<open>
  Claim C3, as stated, fails: the scikit-learn notebook calls methods of its dataset
  descriptor that are not among the nine operations listed.
\<close>

theorem C3_counterexample: "\<not> only_spec_operations (program sklearn_notebook)"
  by code_simp

text \<open>
  Claim C3, amended. The methods the cells call on the classes and objects of the SDK are
  the nine listed operations and, on the dataset descriptor of the scikit-learn notebook,
  \<^verbatim>\<open>add_alternate_identifier\<close>, \<^verbatim>\<open>add_related_identifier\<close> and \<^verbatim>\<open>set_authors\<close>; the Keras
  notebook calls only listed operations. The one attribute of the package that is called
  is the constructor \<^verbatim>\<open>DLHubClient\<close>. The Keras notebook assigns two items of its
  descriptor directly (the cell \<open>keras_cell_io\<close>), the scikit-learn notebook none. Every
  \<^verbatim>\<open>to_dict()\<close> stands in a statement \<^verbatim>\<open>print(json.dumps(d.to_dict(), indent=2))\<close>.
\<close>

theorem C3_sdk_operations:
  "set (sdk_methods (program keras_notebook)) =
     {''create_model'', ''set_title'', ''set_name'', ''set_domains'', ''to_dict'',
      ''publish_servable''}
   \<and> set (sdk_methods (program sklearn_notebook)) =
     set spec_operations
       \<union> {''add_alternate_identifier'', ''add_related_identifier'', ''set_authors''}
   \<and> map (\<lambda>(r, m, args). (r, m))
        (filter (\<lambda>(r, m, args). m \<notin> set spec_operations)
           (sdk_calls (program sklearn_notebook))) =
        [(Name ''dataset_info'', ''add_alternate_identifier''),
         (Name ''dataset_info'', ''add_related_identifier''),
         (Name ''dataset_info'', ''set_authors'')]
   \<and> only_spec_operations (program keras_notebook)
   \<and> sdk_constructors (program keras_notebook) = [''DLHubClient'']
   \<and> sdk_constructors (program sklearn_notebook) = [''DLHubClient'']
   \<and> sdk_item_assignments (program keras_notebook) = keras_cell_io
   \<and> sdk_item_assignments (program sklearn_notebook) = []
   \<and> filter (invokes ''to_dict'') (all_stmts (program keras_notebook)) =
        [json_print ''model_info'']
   \<and> filter (invokes ''to_dict'') (all_stmts (program sklearn_notebook)) =
        [json_print ''dataset_info'', json_print ''model_info'']"
  by code_simp

section \<open>The content of the two notebooks\<close>

text \<open>
  Claim C4, as stated, fails: in the scikit-learn notebook no descriptor is created,
  given a title, domains and descriptions of inputs or outputs, and published. The
  descriptor that is published gets a title, a name and domains only.
\<close>

theorem C4_counterexample: "\<not> follows_four_steps (program sklearn_notebook)"
  by code_simp

text \<open>
  Claim C4, amended. There are two notebooks. The Keras notebook builds a \<^verbatim>\<open>Sequential\<close>
  model whose first two layers are \<^verbatim>\<open>Conv2D\<close>, the scikit-learn notebook an \<^verbatim>\<open>SVC\<close>, and
  each calls \<^verbatim>\<open>fit\<close> on its model. Each creates the descriptor \<^verbatim>\<open>model_info\<close> with
  \<^verbatim>\<open>create_model\<close> from the path of the model file, sets its title, name and domains,
  and passes it to \<^verbatim>\<open>publish_servable\<close>. Descriptions of inputs and outputs are added to
  the published descriptor in the Keras notebook only (the two item assignments of
  \<open>keras_cell_io\<close>), which so follows all four steps. In the scikit-learn notebook
  nothing describes the inputs or outputs of \<^verbatim>\<open>model_info\<close> after it is created:
  \<^verbatim>\<open>create_model\<close> is given \<^verbatim>\<open>n_input_columns\<close> and \<^verbatim>\<open>classes\<close>, and the column
  annotations and the marks of inputs and labels go to the dataset descriptor, which is
  never published.
\<close>

theorem C4_two_notebooks:
  "length notebooks = 2
   \<and> bindings ''model'' (program keras_notebook) = [Call (Name ''Sequential'') []]
   \<and> added_layers (program keras_notebook) =
        [''Conv2D'', ''Conv2D'', ''MaxPooling2D'', ''Dropout'', ''Flatten'', ''Dense'',
         ''Dropout'', ''Dense'']
   \<and> map callee_name (bindings ''model'' (program sklearn_notebook)) = [[''SVC'']]
   \<and> positions trains (program keras_notebook) = [33]
   \<and> positions trains (program sklearn_notebook) = [25]
   \<and> methods_on ''model'' (program sklearn_notebook) = [''fit'']
   \<and> made_by ''model_info'' (program keras_notebook) = [(Name ''KerasModel'', ''create_model'')]
   \<and> made_by ''model_info'' (program sklearn_notebook) =
        [(Name ''ScikitLearnModel'', ''create_model'')]
   \<and> map string_args (method_args ''KerasModel'' ''create_model'' (program keras_notebook)) =
        [[''keras_model.hd5'']]
   \<and> map string_args
        (method_args ''ScikitLearnModel'' ''create_model'' (program sklearn_notebook)) =
        [[''scikit_learn_model/model.pkl'']]
   \<and> methods_on ''model_info'' (program keras_notebook) =
        [''set_title'', ''set_name'', ''set_domains'', ''to_dict'']
   \<and> methods_on ''model_info'' (program sklearn_notebook) =
        [''set_title'', ''set_name'', ''set_domains'', ''to_dict'']
   \<and> method_args ''dl'' ''publish_servable'' (program keras_notebook) = [[Name ''model_info'']]
   \<and> method_args ''dl'' ''publish_servable'' (program sklearn_notebook) =
        [[Name ''model_info'']]
   \<and> io_descriptions ''model_info'' (program keras_notebook) = keras_cell_io
   \<and> four_steps ''model_info'' (program keras_notebook)
   \<and> follows_four_steps (program keras_notebook)
   \<and> io_descriptions ''model_info'' (program sklearn_notebook) = []
   \<and> sdk_item_assignments (program sklearn_notebook) = []
   \<and> map keyword_names
        (method_args ''ScikitLearnModel'' ''create_model'' (program sklearn_notebook)) =
        [[''n_input_columns'', ''classes'']]
   \<and> map (methods_on ''dataset_info'')
        (map (\<lambda>s. [s]) (io_descriptions ''dataset_info'' (program sklearn_notebook))) =
        [[''annotate_column''], [''annotate_column''], [''annotate_column''],
         [''annotate_column''], [''annotate_column''], [''mark_inputs''], [''mark_labels'']]
   \<and> positions (publishes ''dataset_info'') (program sklearn_notebook) = []"
  by code_simp

section \<open>Local data\<close>

text \<open>
  Claim C5, as stated, fails: the scikit-learn notebook names and reads a file that is
  neither an HDF5 nor a pickle model artifact, the training table
  \<^verbatim>\<open>scikit_learn_model/iris.csv\<close>.
\<close>

theorem C5_counterexample: "\<not> only_model_artifacts (program sklearn_notebook)"
  by code_simp

text \<open>
  Claim C5, amended. Besides the metadata assembled by SDK calls, the notebooks name
  three files. The model artifacts are written and then handed to \<^verbatim>\<open>create_model\<close>:
  \<^verbatim>\<open>keras_model.hd5\<close> by \<^verbatim>\<open>model.save\<close> in the Keras notebook,
  \<^verbatim>\<open>scikit_learn_model/model.pkl\<close> by \<^verbatim>\<open>pkl.dump\<close> into the file opened with mode
  \<^verbatim>\<open>wb\<close> in the scikit-learn notebook. The training table
  \<^verbatim>\<open>scikit_learn_model/iris.csv\<close> is read three times (\<^verbatim>\<open>read_csv\<close> twice and the
  \<^verbatim>\<open>create_model\<close> of the dataset descriptor) and never written. The Keras notebook takes
  its training data from one call \<^verbatim>\<open>mnist.load_data()\<close>, which names no file. The string
  literals of the two notebooks are the ones listed, so no other file is named in either.
  What the libraries read or write on their own account is not part of the notebooks.
\<close>

theorem C5_files_read_and_written:
  "file_accesses (program keras_notebook) =
     [(Writes, ''keras_model.hd5''), (Reads, ''keras_model.hd5'')]
   \<and> file_accesses (program sklearn_notebook) =
     [(Reads, ''scikit_learn_model/iris.csv''), (Reads, ''scikit_learn_model/iris.csv''),
      (Reads, ''scikit_learn_model/iris.csv''), (Writes, ''scikit_learn_model/model.pkl''),
      (Reads, ''scikit_learn_model/model.pkl'')]
   \<and> is_model_artifact ''keras_model.hd5''
   \<and> is_model_artifact ''scikit_learn_model/model.pkl''
   \<and> \<not> is_model_artifact ''scikit_learn_model/iris.csv''
   \<and> managers (program sklearn_notebook) = [pickle_file]
   \<and> method_args ''pkl'' ''dump'' (program sklearn_notebook) = [[Name ''model'', Name ''fp'']]
   \<and> method_args ''mnist'' ''load_data'' (program keras_notebook) = [[]]
   \<and> set (string_literals (program keras_notebook)) =
       {''channels_first'', ''float32'', ''x_train shape:'', ''train samples'',
        ''test samples'', ''relu'', ''softmax'', ''accuracy'', ''Test loss:'',
        ''Test accuracy:'', ''keras_model.hd5'', ''MNIST Digit Classifier'',
        ''mnist_tiny_example'', ''general'', ''digit recognition'', ''output'',
        ''Probabilities of being 0-9'', ''servable'', ''methods'', ''run'', ''input'',
        ''description'', ''Image of a digit'', CHR 0x0A # ''--> Model Information <--''}
   \<and> set (string_literals (program sklearn_notebook)) =
       {''https://archive.ics.uci.edu/ml/datasets/Iris'', ''URL'',
        ''10.1111/j.1469-1809.1936.tb02137.x'', ''DOI'', ''IsDescribedBy'',
        ''sepal_length'', ''Length of sepal'', ''sepal_width'', ''Width of sepal'',
        ''petal_length'', ''Length of petal'', ''petal_width'', ''Width of petal'', ''cm'',
        ''Species'', ''string'', ''Iris Dataset'', ''iris_dataset'', ''Marshall, R.A.'',
        ''scikit_learn_model/iris.csv'', ''Loaded {} rows with {} columns:'', ''linear'',
        ''Trained a SVC model'', ''wb'', ''Saved model to disk'',
        ''scikit_learn_model/model.pkl'', ''species'', ''Example Scikit-Learn Model'',
        ''iris_svm'', ''biology''}"
  by code_simp

section \<open>Failures\<close>

subsection \<open>Blocks and their statements\<close>

lemma all_stmts_Cons: "all_stmts (s # ss) = substmts s @ all_stmts ss"
  by (simp add: all_stmts_def)

lemma all_stmts_append: "all_stmts (a @ b) = all_stmts a @ all_stmts b"
  by (simp add: all_stmts_def)

lemma fold_all_stmts: "concat (map substmts ss) = all_stmts ss"
  by (simp add: all_stmts_def)

lemma substmts_self: "s \<in> set (substmts s)"
  by (cases s) simp_all

lemma plain_Cons: "plain (s # ss) \<Longrightarrow> \<not> handles_failure s \<and> plain ss"
  using substmts_self [of s] by (auto simp add: plain_def all_stmts_Cons)

lemma plain_append: "plain (a @ b) = (plain a \<and> plain b)"
  by (auto simp add: plain_def all_stmts_append)

lemma plain_If: "plain (If c a b # ss) \<Longrightarrow> plain a \<and> plain b"
  by (auto simp add: plain_def all_stmts_Cons fold_all_stmts)

lemma plain_With: "plain (With e v body # ss) \<Longrightarrow> plain body"
  by (auto simp add: plain_def all_stmts_Cons fold_all_stmts)

lemma plain_ClassDef: "plain (ClassDef c bs body # ss) \<Longrightarrow> plain body"
  by (auto simp add: plain_def all_stmts_Cons fold_all_stmts)

lemma managers_Cons: "managers (s # ss) = concat (map manager_of (substmts s)) @ managers ss"
  by (simp add: managers_def all_stmts_Cons)

lemma unsuppressed_Cons: "unsuppressed w (s # ss) \<Longrightarrow> unsuppressed w ss"
  by (auto simp add: unsuppressed_def managers_Cons)

lemma unsuppressed_append:
  "unsuppressed w (a @ b) = (unsuppressed w a \<and> unsuppressed w b)"
  by (auto simp add: unsuppressed_def managers_def all_stmts_append)

lemma unsuppressed_If:
  "unsuppressed w (If c a b # ss) \<Longrightarrow> unsuppressed w a \<and> unsuppressed w b"
  by (auto simp add: unsuppressed_def managers_def all_stmts_Cons fold_all_stmts)

lemma unsuppressed_With:
  "unsuppressed w (With e v body # ss) \<Longrightarrow> unsuppressed w body \<and> (\<forall>t. \<not> suppresses w t e)"
  by (auto simp add: unsuppressed_def managers_def all_stmts_Cons fold_all_stmts)

lemma unsuppressed_ClassDef:
  "unsuppressed w (ClassDef c bs body # ss) \<Longrightarrow> unsuppressed w body"
  by (auto simp add: unsuppressed_def managers_def all_stmts_Cons fold_all_stmts)

subsection \<open>A plain block ends\<close>

text \<open>
  A block without loops, \<^verbatim>\<open>try\<close> and \<^verbatim>\<open>raise\<close> ends, normally or with an exception,
  within any fuel above the number of its statements.
\<close>

lemma run_ends:
  "plain ss \<Longrightarrow> length (all_stmts ss) < n \<Longrightarrow> \<exists>r. run w n tr ss = Some r"
proof (induction n arbitrary: tr ss)
  case 0
  then show ?case by simp
next
  case (Suc n)
  obtain t cs where tr: "tr = (t, cs)" by (cases tr)
  show ?case
  proof (cases ss)
    case Nil
    then show ?thesis by simp
  next
    case (Cons s rest)
    have ps: "\<not> handles_failure s" and pr: "plain rest"
      using Suc.prems(1) Cons plain_Cons by blast+
    have len: "length (substmts s) + length (all_stmts rest) < Suc n"
      using Suc.prems(2) Cons by (simp add: all_stmts_Cons)
    have pos: "0 < length (substmts s)"
      using substmts_self [of s] by (cases "substmts s") auto
    have rest: "\<exists>r. run w n tr' rest = Some r" for tr'
      using Suc.IH [OF pr] len pos by simp
    show ?thesis
    proof (cases "raises w t s")
      case True
      then show ?thesis by (simp add: Cons tr)
    next
      case False
      show ?thesis
      proof (cases s)
        case (If c a b)
        have "plain ((if truth w t c then a else b) @ rest)"
          using Suc.prems(1) plain_If [of c a b rest] pr by (simp add: Cons If plain_append)
        moreover have "length (all_stmts ((if truth w t c then a else b) @ rest)) < n"
          using len by (simp add: If fold_all_stmts all_stmts_append)
        ultimately show ?thesis
          using Suc.IH False by (simp add: Cons tr If)
      next
        case (With e v body)
        have pb: "plain body"
          using Suc.prems(1) plain_With by (simp add: Cons With)
        have "length (all_stmts body) < n"
          using len by (simp add: With fold_all_stmts)
        then obtain r where r: "run w n (Suc t, cs) body = Some r"
          using Suc.IH [OF pb] by blast
        obtain out t' cs' where r': "r = (out, (t', cs'))" by (cases r) auto
        show ?thesis
          using rest False r by (cases out) (simp_all add: Cons tr With r')
      next
        case (ClassDef c bs body)
        have "plain (body @ rest)"
          using Suc.prems(1) plain_ClassDef [of c bs body rest] pr
          by (simp add: Cons ClassDef plain_append)
        moreover have "length (all_stmts (body @ rest)) < n"
          using len by (simp add: ClassDef fold_all_stmts all_stmts_append)
        ultimately show ?thesis
          using Suc.IH False by (simp add: Cons tr ClassDef)
      qed (use ps rest False in \<open>simp_all add: Cons tr\<close>)
    qed
  qed
qed

subsection \<open>A plain block handles nothing\<close>

text \<open>
  In a plain block whose context managers swallow nothing, no exception is handled: the
  list of handled exceptions is at the end of the run what it was at the start.
\<close>

lemma run_handles_nothing:
  "plain ss \<Longrightarrow> unsuppressed w ss \<Longrightarrow> run w n (t, cs) ss = Some (out, (t', cs')) \<Longrightarrow> cs' = cs"
proof (induction n arbitrary: t cs ss out t' cs')
  case 0
  then show ?case by simp
next
  case (Suc n)
  show ?case
  proof (cases ss)
    case Nil
    then show ?thesis using Suc.prems(3) by simp
  next
    case (Cons s rest)
    have ps: "\<not> handles_failure s" and pr: "plain rest"
      using Suc.prems(1) Cons plain_Cons by blast+
    have ur: "unsuppressed w rest"
      using Suc.prems(2) Cons unsuppressed_Cons by blast
    note IHr = Suc.IH [OF pr ur]
    show ?thesis
    proof (cases "raises w t s")
      case True
      then show ?thesis using Suc.prems(3) by (simp add: Cons)
    next
      case False
      show ?thesis
      proof (cases s)
        case (If c a b)
        have "plain ((if truth w t c then a else b) @ rest)"
          using Suc.prems(1) plain_If [of c a b rest] pr by (simp add: Cons If plain_append)
        moreover have "unsuppressed w ((if truth w t c then a else b) @ rest)"
          using Suc.prems(2) unsuppressed_If [of w c a b rest] ur
          by (simp add: Cons If unsuppressed_append)
        ultimately show ?thesis
          using Suc.IH Suc.prems(3) False by (simp add: Cons If)
      next
        case (With e v body)
        have pb: "plain body"
          using Suc.prems(1) plain_With by (simp add: Cons With)
        have ub: "unsuppressed w body" and ne: "\<not> suppresses w t e"
          using Suc.prems(2) unsuppressed_With [of w e v body rest] by (simp_all add: Cons With)
        show ?thesis
        proof (cases "run w n (Suc t, cs) body")
          case None
          then show ?thesis using Suc.prems(3) False by (simp add: Cons With)
        next
          case (Some r)
          obtain o1 t1 cs1 where r: "r = (o1, (t1, cs1))" by (cases r) auto
          have c1: "cs1 = cs"
            using Suc.IH [OF pb ub] Some r by simp
          show ?thesis
            using Suc.prems(3) False Some ne IHr c1
            by (cases o1) (auto simp add: Cons With r)
        qed
      next
        case (ClassDef c bs body)
        have "plain (body @ rest)"
          using Suc.prems(1) plain_ClassDef [of c bs body rest] pr
          by (simp add: Cons ClassDef plain_append)
        moreover have "unsuppressed w (body @ rest)"
          using Suc.prems(2) unsuppressed_ClassDef [of w c bs body rest] ur
          by (simp add: Cons ClassDef unsuppressed_append)
        ultimately show ?thesis
          using Suc.IH Suc.prems(3) False by (simp add: Cons ClassDef)
      qed (use ps IHr Suc.prems(3) False in \<open>auto simp add: Cons\<close>)
    qed
  qed
qed

subsection \<open>The notebooks\<close>

lemma notebooks_handle_no_failure:
  "filter handles_failure (all_stmts (program keras_notebook)) = []"
  "filter handles_failure (all_stmts (program sklearn_notebook)) = []"
  by code_simp+

lemma notebooks_conditions:
  "conditions (program keras_notebook) = [data_format_test]"
  "conditions (program sklearn_notebook) = []"
  by code_simp+

lemma notebooks_managers:
  "managers (program keras_notebook) = []"
  "managers (program sklearn_notebook) = [pickle_file]"
  by code_simp+

lemma notebooks_sizes:
  "length (all_stmts (program keras_notebook)) = 58"
  "length (all_stmts (program sklearn_notebook)) = 40"
  by code_simp+

lemma notebooks_plain: "nb \<in> set notebooks \<Longrightarrow> plain (program nb)"
  using notebooks_handle_no_failure
  by (auto simp add: notebooks_def plain_def filter_empty_conv)

lemma notebooks_unsuppressed:
  "nb \<in> set notebooks \<Longrightarrow> \<forall>t. \<not> suppresses w t pickle_file \<Longrightarrow> unsuppressed w (program nb)"
  using notebooks_managers by (auto simp add: notebooks_def unsuppressed_def)

text \<open>
  Claim C6. No statement of either notebook is a \<^verbatim>\<open>try\<close>, a loop or a \<^verbatim>\<open>raise\<close>; the
  only condition tested is the image data format, and the only context manager entered
  is the pickle file opened for writing. Consequently, in every world in which that file
  object swallows no exception (a file object only closes itself), a run of a notebook
  with fuel above the number of its statements ends, and no exception raised during the
  run is handled: the run ends normally, or with the exception uncaught.
\<close>

theorem C6_no_error_handling:
  assumes "nb \<in> set notebooks"
    and "\<forall>t. \<not> suppresses w t pickle_file"
    and "length (all_stmts (program nb)) < n"
  shows "filter handles_failure (all_stmts (program nb)) = []
       \<and> list_all (\<lambda>c. c = data_format_test) (conditions (program nb))
       \<and> list_all (\<lambda>e. e = pickle_file) (managers (program nb))
       \<and> (\<exists>out t. run w n (0, []) (program nb) = Some (out, (t, [])))"
proof -
  have p: "plain (program nb)"
    using assms(1) by (rule notebooks_plain)
  have u: "unsuppressed w (program nb)"
    using assms(1, 2) by (rule notebooks_unsuppressed)
  obtain out t cs where r: "run w n (0, []) (program nb) = Some (out, (t, cs))"
    using run_ends [OF p assms(3), of w "(0, [])"] by auto
  have "cs = []"
    using run_handles_nothing [OF p u r] .
  then have "\<exists>out t. run w n (0, []) (program nb) = Some (out, (t, []))"
    using r by blast
  moreover have "filter handles_failure (all_stmts (program nb)) = []"
    using assms(1) notebooks_handle_no_failure by (auto simp add: notebooks_def)
  moreover have "list_all (\<lambda>c. c = data_format_test) (conditions (program nb))"
    using assms(1) notebooks_conditions by (auto simp add: notebooks_def)
  moreover have "list_all (\<lambda>e. e = pickle_file) (managers (program nb))"
    using assms(1) notebooks_managers by (auto simp add: notebooks_def)
  ultimately show ?thesis by blast
qed

lemma publish_fails_run:
  "run publish_fails 60 (0, []) (program sklearn_notebook) = Some (Uncaught publish_stmt, (39, []))"
  by code_simp

theorem C6_witness:
  "sklearn_notebook \<in> set notebooks
   \<and> (\<forall>t. \<not> suppresses publish_fails t pickle_file)
   \<and> length (all_stmts (program sklearn_notebook)) < 60
   \<and> filter handles_failure (all_stmts (program sklearn_notebook)) = []
   \<and> list_all (\<lambda>c. c = data_format_test) (conditions (program sklearn_notebook))
   \<and> list_all (\<lambda>e. e = pickle_file) (managers (program sklearn_notebook))
   \<and> (\<exists>out t. run publish_fails 60 (0, []) (program sklearn_notebook) = Some (out, (t, [])))
   \<and> run publish_fails 60 (0, []) (program sklearn_notebook) =
       Some (Uncaught publish_stmt, (39, []))"
proof -
  have a: "sklearn_notebook \<in> set notebooks"
    by (simp add: notebooks_def)
  have b: "\<forall>t. \<not> suppresses publish_fails t pickle_file"
    by (simp add: publish_fails_def)
  have c: "length (all_stmts (program sklearn_notebook)) < 60"
    by (simp add: notebooks_sizes)
  show ?thesis
    using C6_no_error_handling [OF a b c] a b c publish_fails_run by blast
qed

section \<open>Where the SDK types come from\<close>

text \<open>
  Claim C7. \<^verbatim>\<open>KerasModel\<close>, \<^verbatim>\<open>TabularDataset\<close> and \<^verbatim>\<open>ScikitLearnModel\<close> are each imported
  once, from a module of the package \<^verbatim>\<open>dlhub_sdk\<close>; \<^verbatim>\<open>DLHubClient\<close> is only ever taken as
  an attribute of the name \<^verbatim>\<open>dlhub_sdk\<close>, which \<^verbatim>\<open>import dlhub_sdk\<close> binds. Neither
  notebook defines a class or a function, and none of these names is assigned.
\<close>

theorem C7_types_are_imported:
  "imported_from ''KerasModel'' (program keras_notebook) = [''dlhub_sdk.models.servables.keras'']
   \<and> imported_from ''TabularDataset'' (program sklearn_notebook) = [''dlhub_sdk.models.datasets'']
   \<and> imported_from ''ScikitLearnModel'' (program sklearn_notebook) =
        [''dlhub_sdk.models.servables.sklearn'']
   \<and> top_package ''dlhub_sdk.models.servables.keras'' = ''dlhub_sdk''
   \<and> top_package ''dlhub_sdk.models.datasets'' = ''dlhub_sdk''
   \<and> top_package ''dlhub_sdk.models.servables.sklearn'' = ''dlhub_sdk''
   \<and> owners_of ''DLHubClient'' (program keras_notebook) = [Name ''dlhub_sdk'']
   \<and> owners_of ''DLHubClient'' (program sklearn_notebook) = [Name ''dlhub_sdk'']
   \<and> imported_from ''dlhub_sdk'' (program keras_notebook) = [''dlhub_sdk'']
   \<and> imported_from ''dlhub_sdk'' (program sklearn_notebook) = [''dlhub_sdk'']
   \<and> definitions (program keras_notebook) = []
   \<and> definitions (program sklearn_notebook) = []
   \<and> filter (\<lambda>x. x \<in> set [''KerasModel'', ''ScikitLearnModel'', ''TabularDataset'',
                             ''DLHubClient'', ''dlhub_sdk''])
        (assigned_names (program keras_notebook) @ assigned_names (program sklearn_notebook)) = []"
  by code_simp

section \<open>Slices and shapes\<close>

lemma slice_bound_nonneg: "0 \<le> k \<Longrightarrow> slice_bound k n = min (nat k) n"
  by (simp add: slice_bound_def)

lemma slice_bound_minus_one: "slice_bound (- 1) n = n - 1"
  by (simp add: slice_bound_def nat_diff_distrib')

lemma marked_inputs_butlast: "marked_inputs cs = butlast cs"
  by (simp add: marked_inputs_def py_slice_def slice_start_def slice_stop_def
      slice_bound_minus_one butlast_conv_take)

lemma marked_labels_last: "cs \<noteq> [] \<Longrightarrow> marked_labels cs = [last cs]"
proof -
  assume ne: "cs \<noteq> []"
  have "marked_labels cs = drop (length cs - 1) cs"
    by (simp add: marked_labels_def py_slice_def slice_start_def slice_stop_def
        slice_bound_minus_one)
  also have "\<dots> = [last cs]"
    using ne by (metis append_butlast_last_id append_eq_conv_conj length_butlast)
  finally show ?thesis .
qed

lemma marked_columns_in_notebook:
  "method_args ''dataset_info'' ''mark_inputs'' (program sklearn_notebook) =
     [[Subscript (Attribute (Name ''data'') ''columns'') (Slice None (Some (IntLit (- 1))))]]"
  "method_args ''dataset_info'' ''mark_labels'' (program sklearn_notebook) =
     [[Subscript (Attribute (Name ''data'') ''columns'') (Slice (Some (IntLit (- 1))) None)]]"
  by code_simp+

text \<open>
  Claim C8. The scikit-learn notebook marks \<^verbatim>\<open>data.columns[:-1]\<close> as inputs and
  \<^verbatim>\<open>data.columns[-1:]\<close> as labels. For every non-empty list of columns, the inputs are
  all columns but the last, the labels are the last column alone, and the inputs followed
  by the labels are the columns again: every column is marked, at exactly one of the two
  positions. When the column names are distinct (as \<^verbatim>\<open>read_csv\<close> makes them), no name
  is marked both as input and as label.
\<close>

theorem C8_inputs_and_labels_partition:
  "method_args ''dataset_info'' ''mark_inputs'' (program sklearn_notebook) =
     [[Subscript (Attribute (Name ''data'') ''columns'') (Slice None (Some (IntLit (- 1))))]]
   \<and> method_args ''dataset_info'' ''mark_labels'' (program sklearn_notebook) =
     [[Subscript (Attribute (Name ''data'') ''columns'') (Slice (Some (IntLit (- 1))) None)]]
   \<and> (columns \<noteq> [] \<longrightarrow>
         marked_inputs columns = butlast columns
       \<and> marked_labels columns = [last columns]
       \<and> marked_inputs columns @ marked_labels columns = columns
       \<and> length (marked_inputs columns) + length (marked_labels columns) = length columns
       \<and> set (marked_inputs columns) \<union> set (marked_labels columns) = set columns
       \<and> (distinct columns \<longrightarrow> set (marked_inputs columns) \<inter> set (marked_labels columns) = {}))"
proof (intro conjI impI)
  assume ne: "columns \<noteq> []"
  show a: "marked_inputs columns = butlast columns"
    by (rule marked_inputs_butlast)
  show b: "marked_labels columns = [last columns]"
    using ne by (rule marked_labels_last)
  show c: "marked_inputs columns @ marked_labels columns = columns"
    using ne by (simp add: a b)
  show "length (marked_inputs columns) + length (marked_labels columns) = length columns"
    using c by (metis length_append)
  show "set (marked_inputs columns) \<union> set (marked_labels columns) = set columns"
    using c by (metis set_append)
  assume "distinct columns"
  then show "set (marked_inputs columns) \<inter> set (marked_labels columns) = {}"
    using c by (metis distinct_append)
qed (rule marked_columns_in_notebook)+

theorem C8_witness:
  "iris_columns \<noteq> [] \<and> distinct iris_columns
   \<and> marked_inputs iris_columns =
       [''sepal_length'', ''sepal_width'', ''petal_length'', ''petal_width'']
   \<and> marked_labels iris_columns = [''species'']
   \<and> set (marked_inputs iris_columns) \<inter> set (marked_labels iris_columns) = {}
   \<and> set (marked_inputs iris_columns) \<union> set (marked_labels iris_columns) = set iris_columns"
proof -
  have ne: "iris_columns \<noteq> []" and d: "distinct iris_columns"
    by (simp_all add: iris_columns_def)
  have i: "marked_inputs iris_columns = butlast iris_columns"
    and l: "marked_labels iris_columns = [last iris_columns]"
    and u: "set (marked_inputs iris_columns) \<union> set (marked_labels iris_columns) = set iris_columns"
    and n: "set (marked_inputs iris_columns) \<inter> set (marked_labels iris_columns) = {}"
    using C8_inputs_and_labels_partition [of iris_columns] ne d by blast+
  have "butlast iris_columns = [''sepal_length'', ''sepal_width'', ''petal_length'', ''petal_width'']"
    and "last iris_columns = ''species''"
    by (simp_all add: iris_columns_def)
  then show ?thesis
    using ne d i l u n by simp
qed

subsection \<open>Results of the array operations\<close>

lemma bind_Inr: "bind m f = Inr r \<Longrightarrow> \<exists>v. m = Inr v \<and> f v = Inr r"
  by (cases m) (simp_all add: bind_def)

lemma reshape_Inr:
  "reshape a s = Inr b \<Longrightarrow> shape b = s \<and> elems b = elems a \<and> prod_list s = prod_list (shape a)"
  by (auto simp add: reshape_def split: if_splits)

lemma slice_rows_upto:
  "0 \<le> k \<Longrightarrow> shape a = n # rest \<Longrightarrow>
   slice_rows None (Some k) a =
     Inr \<lparr>shape = min (nat k) n # rest, elems = take (min (nat k) n * prod_list rest) (elems a)\<rparr>"
  by (simp add: slice_rows_def slice_start_def slice_stop_def slice_bound_nonneg Let_def)

lemma reshape_images_Inr:
  assumes "reshape_images fmt x_train x_test = Inr (a, b, ishape)"
  shows "\<exists>n m. shape0 x_train = Inr n \<and> shape0 x_test = Inr m
           \<and> shape a = n # ishape \<and> shape b = m # ishape
           \<and> elems a = elems x_train \<and> elems b = elems x_test
           \<and> prod_list (shape x_train) = n * 784 \<and> prod_list (shape x_test) = m * 784
           \<and> prod_list ishape = 28 * 28 * 1
           \<and> ishape = (if fmt = ''channels_first'' then [1, 28, 28] else [28, 28, 1])"
proof (cases "fmt = ''channels_first''")
  case True
  from assms True obtain n a' m b' where
    "shape0 x_train = Inr n" "reshape x_train [n, 1, img_rows, img_cols] = Inr a'"
    "shape0 x_test = Inr m" "reshape x_test [m, 1, img_rows, img_cols] = Inr b'"
    "(a', b', [1, img_rows, img_cols]) = (a, b, ishape)"
    unfolding reshape_images_def by (auto dest!: bind_Inr)
  then show ?thesis
    using True by (auto dest!: reshape_Inr simp add: img_rows_def img_cols_def)
next
  case False
  from assms False obtain n a' m b' where
    "shape0 x_train = Inr n" "reshape x_train [n, img_rows, img_cols, 1] = Inr a'"
    "shape0 x_test = Inr m" "reshape x_test [m, img_rows, img_cols, 1] = Inr b'"
    "(a', b', [img_rows, img_cols, 1]) = (a, b, ishape)"
    unfolding reshape_images_def by (auto dest!: bind_Inr)
  then show ?thesis
    using False by (auto dest!: reshape_Inr simp add: img_rows_def img_cols_def)
qed

lemma reshape_images_mnist:
  assumes "shape x_train = [n, 28, 28]" and "shape x_test = [m, 28, 28]"
  shows "reshape_images fmt x_train x_test =
           Inr (x_train\<lparr>shape := n # (if fmt = ''channels_first'' then [1, 28, 28] else [28, 28, 1])\<rparr>,
                x_test\<lparr>shape := m # (if fmt = ''channels_first'' then [1, 28, 28] else [28, 28, 1])\<rparr>,
                if fmt = ''channels_first'' then [1, 28, 28] else [28, 28, 1])"
  using assms
  by (simp add: reshape_images_def bind_def shape0_def reshape_def img_rows_def img_cols_def)

text \<open>
  Claim C9. Whichever branch of the test on \<^verbatim>\<open>K.image_data_format()\<close> is taken, when the
  reshapes succeed the reshaped \<^verbatim>\<open>x_train\<close> and \<^verbatim>\<open>x_test\<close> keep their first dimension
  (the number of samples) and their elements, the shape of one sample is
  \<^verbatim>\<open>input_shape\<close>, which is \<open>[1, 28, 28]\<close> or \<open>[28, 28, 1]\<close> and holds 28 * 28 * 1 = 784
  elements, and a well-formed array holds 784 elements for each of its samples. The
  reshapes succeed on arrays of shape \<open>[k, 28, 28]\<close>, the shape of the MNIST images.
\<close>

theorem C9_reshape_keeps_samples:
  "(reshape_images fmt x_train x_test = Inr (a, b, ishape) \<longrightarrow>
      (\<exists>n m. shape0 x_train = Inr n \<and> shape0 x_test = Inr m
           \<and> shape0 a = Inr n \<and> shape0 b = Inr m
           \<and> shape a = n # ishape \<and> shape b = m # ishape
           \<and> elems a = elems x_train \<and> elems b = elems x_test
           \<and> ishape = (if fmt = ''channels_first'' then [1, 28, 28] else [28, 28, 1])
           \<and> prod_list ishape = 28 * 28 * 1
           \<and> (well_formed x_train \<longrightarrow> length (elems a) = n * 784)
           \<and> (well_formed x_test \<longrightarrow> length (elems b) = m * 784)))
   \<and> (shape x_train = [k, 28, 28] \<and> shape x_test = [l, 28, 28] \<longrightarrow>
        (\<exists>r. reshape_images fmt x_train x_test = Inr r))"
proof (intro conjI impI)
  assume "reshape_images fmt x_train x_test = Inr (a, b, ishape)"
  from reshape_images_Inr [OF this] obtain n m where
    "shape0 x_train = Inr n" "shape0 x_test = Inr m"
    "shape a = n # ishape" "shape b = m # ishape"
    "elems a = elems x_train" "elems b = elems x_test"
    "prod_list (shape x_train) = n * 784" "prod_list (shape x_test) = m * 784"
    "prod_list ishape = 28 * 28 * 1"
    "ishape = (if fmt = ''channels_first'' then [1, 28, 28] else [28, 28, 1])"
    by blast
  then show "\<exists>n m. shape0 x_train = Inr n \<and> shape0 x_test = Inr m
           \<and> shape0 a = Inr n \<and> shape0 b = Inr m
           \<and> shape a = n # ishape \<and> shape b = m # ishape
           \<and> elems a = elems x_train \<and> elems b = elems x_test
           \<and> ishape = (if fmt = ''channels_first'' then [1, 28, 28] else [28, 28, 1])
           \<and> prod_list ishape = 28 * 28 * 1
           \<and> (well_formed x_train \<longrightarrow> length (elems a) = n * 784)
           \<and> (well_formed x_test \<longrightarrow> length (elems b) = m * 784)"
    by (simp add: shape0_def well_formed_def)
next
  assume "shape x_train = [k, 28, 28] \<and> shape x_test = [l, 28, 28]"
  then show "\<exists>r. reshape_images fmt x_train x_test = Inr r"
    using reshape_images_mnist [of x_train k x_test l fmt] by blast
qed

lemma reshape_sample_images:
  "reshape_images ''channels_first'' two_images one_image =
     Inr (two_images\<lparr>shape := [2, 1, 28, 28]\<rparr>, one_image\<lparr>shape := [1, 1, 28, 28]\<rparr>, [1, 28, 28])"
  by (simp add: reshape_images_def bind_def shape0_def reshape_def img_rows_def img_cols_def
      two_images_def one_image_def)

theorem C9_witness:
  "reshape_images ''channels_first'' two_images one_image =
     Inr (two_images\<lparr>shape := [2, 1, 28, 28]\<rparr>, one_image\<lparr>shape := [1, 1, 28, 28]\<rparr>, [1, 28, 28])
   \<and> shape two_images = [2, 28, 28] \<and> shape one_image = [1, 28, 28]
   \<and> well_formed two_images \<and> well_formed one_image
   \<and> shape0 two_images = Inr 2 \<and> shape0 (two_images\<lparr>shape := [2, 1, 28, 28]\<rparr>) = Inr 2
   \<and> shape0 one_image = Inr 1 \<and> shape0 (one_image\<lparr>shape := [1, 1, 28, 28]\<rparr>) = Inr 1
   \<and> length (elems (two_images\<lparr>shape := [2, 1, 28, 28]\<rparr>)) = 2 * 784
   \<and> prod_list [1, 28, 28] = (784 :: nat)
   \<and> (\<exists>r. reshape_images ''channels_first'' two_images one_image = Inr r)"
proof -
  have s: "shape two_images = [2, 28, 28] \<and> shape one_image = [1, 28, 28]"
    by (simp add: two_images_def one_image_def)
  have w: "well_formed two_images \<and> well_formed one_image"
    by (simp add: well_formed_def two_images_def one_image_def)
  have e: "\<exists>r. reshape_images ''channels_first'' two_images one_image = Inr r"
    using C9_reshape_keeps_samples [of "''channels_first''" two_images one_image
        "two_images\<lparr>shape := [2, 1, 28, 28]\<rparr>" "one_image\<lparr>shape := [1, 1, 28, 28]\<rparr>"
        "[1, 28, 28]" 2 1] s
    by blast
  show ?thesis
    using reshape_sample_images s w e
    by (simp add: shape0_def two_images_def one_image_def)
qed

section \<open>Training and evaluation data\<close>

lemma training_cell_Inr:
  assumes "training_cell fmt f32 div255 to_cat ((x_train, y_train), (x_test, y_test)) = Inr d"
  shows "\<exists>n m ys yt k rest.
           shape0 x_train = Inr n \<and> shape0 x_test = Inr m
         \<and> to_cat y_train num_classes = Inr ys \<and> to_cat y_test num_classes = Inr yt
         \<and> shape ys = k # rest
         \<and> prod_list (input_shape d) = 784
         \<and> shape (fit_x d) = min 100 n # input_shape d
         \<and> elems (fit_x d) = take (min 100 n * 784) (map (div255 \<circ> f32) (elems x_train))
         \<and> shape (fit_y d) = min 100 k # rest
         \<and> elems (fit_y d) = take (min 100 k * prod_list rest) (elems ys)
         \<and> shape (evaluate_x d) = m # input_shape d
         \<and> elems (evaluate_x d) = map (div255 \<circ> f32) (elems x_test)
         \<and> evaluate_y d = yt
         \<and> validation_data d = (evaluate_x d, evaluate_y d)"
proof -
  from assms obtain a b ishape where
    r: "reshape_images fmt x_train x_test = Inr (a, b, ishape)"
    unfolding training_cell_def by (auto dest!: bind_Inr)
  define xa where "xa = astype div255 (astype f32 a)"
  define xb where "xb = astype div255 (astype f32 b)"
  from assms r obtain ys yt fx fy where
    ys: "to_cat y_train num_classes = Inr ys" and
    yt: "to_cat y_test num_classes = Inr yt" and
    fx: "slice_rows None (Some train_size) xa = Inr fx" and
    fy: "slice_rows None (Some train_size) ys = Inr fy" and
    d: "d = \<lparr>input_shape = ishape, fit_x = fx, fit_y = fy, validation_data = (xb, yt),
             evaluate_x = xb, evaluate_y = yt\<rparr>"
    unfolding training_cell_def xa_def xb_def
    by (auto simp add: bind_def Let_def split: sum.splits)
  from reshape_images_Inr [OF r] obtain n m where
    n: "shape0 x_train = Inr n" and m: "shape0 x_test = Inr m" and
    sa: "shape a = n # ishape" and sb: "shape b = m # ishape" and
    ea: "elems a = elems x_train" and eb: "elems b = elems x_test" and
    pi: "prod_list ishape = 28 * 28 * 1"
    by blast
  have sxa: "shape xa = n # ishape" and exa: "elems xa = map (div255 \<circ> f32) (elems x_train)"
    by (simp_all add: xa_def astype_def sa ea)
  have sxb: "shape xb = m # ishape" and exb: "elems xb = map (div255 \<circ> f32) (elems x_test)"
    by (simp_all add: xb_def astype_def sb eb)
  have fx': "fx = \<lparr>shape = min 100 n # ishape, elems = take (min 100 n * 784) (elems xa)\<rparr>"
    using fx slice_rows_upto [of train_size xa n ishape] sxa pi
    by (simp add: train_size_def)
  obtain k rest where sys: "shape ys = k # rest"
    using fy by (cases "shape ys") (simp_all add: slice_rows_def)
  have fy': "fy = \<lparr>shape = min 100 k # rest, elems = take (min 100 k * prod_list rest) (elems ys)\<rparr>"
    using fy slice_rows_upto [of train_size ys k rest] sys
    by (simp add: train_size_def)
  show ?thesis
    using n m ys yt sys pi by (simp add: d fx' fy' exa sxb exb)
qed

lemma fit_and_evaluate_in_notebook:
  "bindings ''train_size'' (program keras_notebook) = [IntLit 100]"
  "filter (\<lambda>x. x = ''train_size'') (assigned_names (program keras_notebook)) = [''train_size'']"
  "map (take 2) (method_args ''model'' ''fit'' (program keras_notebook)) =
     [[Subscript (Name ''x_train'') (Slice None (Some (Name ''train_size''))),
       Subscript (Name ''y_train'') (Slice None (Some (Name ''train_size'')))]]"
  "method_args ''model'' ''evaluate'' (program keras_notebook) =
     [[Name ''x_test'', Name ''y_test'', Keyword ''verbose'' (IntLit 0)]]"
  by code_simp+

lemma training_cell_succeeds:
  assumes "shape x_train = [n, 28, 28]" and "shape x_test = [m, 28, 28]"
    and "to_cat y_train num_classes = Inr ys" and "to_cat y_test num_classes = Inr yt"
    and "shape ys = k # rest"
  shows "training_cell fmt f32 div255 to_cat ((x_train, y_train), (x_test, y_test)) =
     Inr \<lparr>input_shape = (if fmt = ''channels_first'' then [1, 28, 28] else [28, 28, 1]),
          fit_x = \<lparr>shape = min 100 n # (if fmt = ''channels_first'' then [1, 28, 28] else [28, 28, 1]),
                   elems = take (min 100 n * 784) (map (div255 \<circ> f32) (elems x_train))\<rparr>,
          fit_y = \<lparr>shape = min 100 k # rest,
                   elems = take (min 100 k * prod_list rest) (elems ys)\<rparr>,
          validation_data =
            (\<lparr>shape = m # (if fmt = ''channels_first'' then [1, 28, 28] else [28, 28, 1]),
              elems = map (div255 \<circ> f32) (elems x_test)\<rparr>, yt),
          evaluate_x = \<lparr>shape = m # (if fmt = ''channels_first'' then [1, 28, 28] else [28, 28, 1]),
                        elems = map (div255 \<circ> f32) (elems x_test)\<rparr>,
          evaluate_y = yt\<rparr>"
proof -
  define ish :: "nat list" where
    "ish = (if fmt = ''channels_first'' then [1, 28, 28] else [28, 28, 1])"
  have pi: "prod_list ish = 784"
    by (simp add: ish_def)
  have r: "reshape_images fmt x_train x_test =
             Inr (x_train\<lparr>shape := n # ish\<rparr>, x_test\<lparr>shape := m # ish\<rparr>, ish)"
    unfolding ish_def using assms(1, 2) by (rule reshape_images_mnist)
  have sx: "slice_rows None (Some train_size)
               \<lparr>shape = n # ish, elems = map (div255 \<circ> f32) (elems x_train)\<rparr> =
      Inr \<lparr>shape = min 100 n # ish,
           elems = take (min 100 n * 784) (map (div255 \<circ> f32) (elems x_train))\<rparr>"
    using slice_rows_upto
      [of train_size "\<lparr>shape = n # ish, elems = map (div255 \<circ> f32) (elems x_train)\<rparr>" n ish] pi
    by (simp add: train_size_def)
  have sy: "slice_rows None (Some train_size) ys =
      Inr \<lparr>shape = min 100 k # rest, elems = take (min 100 k * prod_list rest) (elems ys)\<rparr>"
    using slice_rows_upto [of train_size ys k rest] assms(5)
    by (simp add: train_size_def)
  show ?thesis
    unfolding ish_def [symmetric]
    by (simp add: training_cell_def r bind_def Let_def assms(3, 4) sx sy astype_def)
qed


text \<open>
  Claim C10. In the Keras notebook \<^verbatim>\<open>train_size\<close> is assigned once, the value 100;
  \<^verbatim>\<open>model.fit\<close> is called with \<^verbatim>\<open>x_train[:train_size]\<close> and \<^verbatim>\<open>y_train[:train_size]\<close>, and
  \<^verbatim>\<open>model.evaluate\<close> with \<^verbatim>\<open>x_test\<close> and \<^verbatim>\<open>y_test\<close> as they are. Whenever the training
  cell gets as far as the model, the images it fits on are the first \<open>min 100 n\<close> of the
  \<open>n\<close> converted training images, the labels it fits on are the first \<open>min 100 k\<close> of
  the \<open>k\<close> encoded training labels, and the images and labels it evaluates on are all
  \<open>m\<close> converted test images and all encoded test labels. And the cell does get that
  far, with exactly these data, on images of shape \<open>[rows, 28, 28]\<close> and
  \<open>[tests, 28, 28]\<close> whose labels \<^verbatim>\<open>to_categorical\<close> encodes into arrays of at least
  one dimension, however many training images there are.
\<close>

theorem C10_fit_on_first_hundred:
  "bindings ''train_size'' (program keras_notebook) = [IntLit 100]
   \<and> filter (\<lambda>x. x = ''train_size'') (assigned_names (program keras_notebook)) = [''train_size'']
   \<and> map (take 2) (method_args ''model'' ''fit'' (program keras_notebook)) =
       [[Subscript (Name ''x_train'') (Slice None (Some (Name ''train_size''))),
         Subscript (Name ''y_train'') (Slice None (Some (Name ''train_size'')))]]
   \<and> method_args ''model'' ''evaluate'' (program keras_notebook) =
       [[Name ''x_test'', Name ''y_test'', Keyword ''verbose'' (IntLit 0)]]
   \<and> (training_cell fmt f32 div255 to_cat ((x_train, y_train), (x_test, y_test)) = Inr d \<longrightarrow>
        (\<exists>n m ys yt k rest.
           shape0 x_train = Inr n \<and> shape0 x_test = Inr m
         \<and> to_cat y_train num_classes = Inr ys \<and> to_cat y_test num_classes = Inr yt
         \<and> shape ys = k # rest
         \<and> prod_list (input_shape d) = 784
         \<and> shape (fit_x d) = min 100 n # input_shape d
         \<and> elems (fit_x d) = take (min 100 n * 784) (map (div255 \<circ> f32) (elems x_train))
         \<and> shape (fit_y d) = min 100 k # rest
         \<and> elems (fit_y d) = take (min 100 k * prod_list rest) (elems ys)
         \<and> shape (evaluate_x d) = m # input_shape d
         \<and> elems (evaluate_x d) = map (div255 \<circ> f32) (elems x_test)
         \<and> evaluate_y d = yt
         \<and> validation_data d = (evaluate_x d, evaluate_y d)))
   \<and> (shape x_train = [rows, 28, 28] \<and> shape x_test = [tests, 28, 28]
        \<and> to_cat y_train num_classes = Inr ys' \<and> to_cat y_test num_classes = Inr yt'
        \<and> shape ys' = k' # rest' \<longrightarrow>
        training_cell fmt f32 div255 to_cat ((x_train, y_train), (x_test, y_test)) =
          Inr \<lparr>input_shape = (if fmt = ''channels_first'' then [1, 28, 28] else [28, 28, 1]),
               fit_x =
                 \<lparr>shape = min 100 rows #
                            (if fmt = ''channels_first'' then [1, 28, 28] else [28, 28, 1]),
                  elems = take (min 100 rows * 784) (map (div255 \<circ> f32) (elems x_train))\<rparr>,
               fit_y =
                 \<lparr>shape = min 100 k' # rest',
                  elems = take (min 100 k' * prod_list rest') (elems ys')\<rparr>,
               validation_data =
                 (\<lparr>shape = tests #
                             (if fmt = ''channels_first'' then [1, 28, 28] else [28, 28, 1]),
                   elems = map (div255 \<circ> f32) (elems x_test)\<rparr>, yt'),
               evaluate_x =
                 \<lparr>shape = tests # (if fmt = ''channels_first'' then [1, 28, 28] else [28, 28, 1]),
                  elems = map (div255 \<circ> f32) (elems x_test)\<rparr>,
               evaluate_y = yt'\<rparr>)"
proof (intro conjI impI)
  assume "training_cell fmt f32 div255 to_cat ((x_train, y_train), (x_test, y_test)) = Inr d"
  then show "\<exists>n m ys yt k rest.
           shape0 x_train = Inr n \<and> shape0 x_test = Inr m
         \<and> to_cat y_train num_classes = Inr ys \<and> to_cat y_test num_classes = Inr yt
         \<and> shape ys = k # rest
         \<and> prod_list (input_shape d) = 784
         \<and> shape (fit_x d) = min 100 n # input_shape d
         \<and> elems (fit_x d) = take (min 100 n * 784) (map (div255 \<circ> f32) (elems x_train))
         \<and> shape (fit_y d) = min 100 k # rest
         \<and> elems (fit_y d) = take (min 100 k * prod_list rest) (elems ys)
         \<and> shape (evaluate_x d) = m # input_shape d
         \<and> elems (evaluate_x d) = map (div255 \<circ> f32) (elems x_test)
         \<and> evaluate_y d = yt
         \<and> validation_data d = (evaluate_x d, evaluate_y d)"
    by (rule training_cell_Inr)
next
  assume a: "shape x_train = [rows, 28, 28] \<and> shape x_test = [tests, 28, 28]
        \<and> to_cat y_train num_classes = Inr ys' \<and> to_cat y_test num_classes = Inr yt'
        \<and> shape ys' = k' # rest'"
  show "training_cell fmt f32 div255 to_cat ((x_train, y_train), (x_test, y_test)) =
          Inr \<lparr>input_shape = (if fmt = ''channels_first'' then [1, 28, 28] else [28, 28, 1]),
               fit_x =
                 \<lparr>shape = min 100 rows #
                            (if fmt = ''channels_first'' then [1, 28, 28] else [28, 28, 1]),
                  elems = take (min 100 rows * 784) (map (div255 \<circ> f32) (elems x_train))\<rparr>,
               fit_y =
                 \<lparr>shape = min 100 k' # rest',
                  elems = take (min 100 k' * prod_list rest') (elems ys')\<rparr>,
               validation_data =
                 (\<lparr>shape = tests #
                             (if fmt = ''channels_first'' then [1, 28, 28] else [28, 28, 1]),
                   elems = map (div255 \<circ> f32) (elems x_test)\<rparr>, yt'),
               evaluate_x =
                 \<lparr>shape = tests # (if fmt = ''channels_first'' then [1, 28, 28] else [28, 28, 1]),
                  elems = map (div255 \<circ> f32) (elems x_test)\<rparr>,
               evaluate_y = yt'\<rparr>"
    using a by (intro training_cell_succeeds) simp_all
qed (rule fit_and_evaluate_in_notebook)+


lemma first_hundred_images:
  "take 78400 (map ((\<lambda>x. x) \<circ> Suc) (elems many_images)) =
     map (\<lambda>j. Suc (j div 784)) [0..<78400]"
  by (simp add: many_images_def take_map comp_def)

lemma converted_test_image:
  "map ((\<lambda>x. x) \<circ> Suc) (elems one_image) = replicate 784 1"
  by (simp add: one_image_def)


lemma many_labels_encoded: "one_hot many_labels num_classes = Inr many_encoded"
  by (simp add: one_hot_def many_labels_def num_classes_def one_hot_rows_def list_all_iff
      many_encoded_def)

lemma one_label_encoded: "one_hot one_label num_classes = Inr one_encoded"
  by (simp add: one_hot_def one_label_def num_classes_def one_hot_rows_def one_encoded_def)

theorem C10_witness:
  "shape many_images = [150, 28, 28] \<and> shape one_image = [1, 28, 28]
   \<and> one_hot many_labels num_classes = Inr many_encoded
   \<and> one_hot one_label num_classes = Inr one_encoded
   \<and> shape many_encoded = 150 # [10]
   \<and> training_cell ''channels_last'' Suc (\<lambda>x. x) one_hot
         ((many_images, many_labels), (one_image, one_label)) = Inr sample_run
   \<and> shape0 many_images = Inr 150
   \<and> shape (fit_x sample_run) = min 100 150 # input_shape sample_run
   \<and> elems (fit_x sample_run) = map (\<lambda>j. Suc (j div 784)) [0..<100 * 784]
   \<and> shape (fit_y sample_run) = [100, 10]
   \<and> shape (evaluate_x sample_run) = 1 # input_shape sample_run
   \<and> evaluate_y sample_run = one_encoded"
proof -
  have h: "shape many_images = [150, 28, 28] \<and> shape one_image = [1, 28, 28]
        \<and> one_hot many_labels num_classes = Inr many_encoded
        \<and> one_hot one_label num_classes = Inr one_encoded
        \<and> shape many_encoded = 150 # [10]"
    by (simp add: many_images_def one_image_def many_labels_encoded one_label_encoded
        many_encoded_def)
  have "training_cell ''channels_last'' Suc (\<lambda>x. x) one_hot
         ((many_images, many_labels), (one_image, one_label)) =
          Inr \<lparr>input_shape = (if ''channels_last'' = ''channels_first'' then [1, 28, 28] else [28, 28, 1]),
               fit_x =
                 \<lparr>shape = min 100 150 #
                            (if ''channels_last'' = ''channels_first'' then [1, 28, 28] else [28, 28, 1]),
                  elems = take (min 100 150 * 784) (map ((\<lambda>x. x) \<circ> Suc) (elems many_images))\<rparr>,
               fit_y =
                 \<lparr>shape = min 100 150 # [10],
                  elems = take (min 100 150 * prod_list [10]) (elems many_encoded)\<rparr>,
               validation_data =
                 (\<lparr>shape = 1 #
                             (if ''channels_last'' = ''channels_first'' then [1, 28, 28] else [28, 28, 1]),
                   elems = map ((\<lambda>x. x) \<circ> Suc) (elems one_image)\<rparr>, one_encoded),
               evaluate_x =
                 \<lparr>shape = 1 # (if ''channels_last'' = ''channels_first'' then [1, 28, 28] else [28, 28, 1]),
                  elems = map ((\<lambda>x. x) \<circ> Suc) (elems one_image)\<rparr>,
               evaluate_y = one_encoded\<rparr>"
    using C10_fit_on_first_hundred [of "''channels_last''" Suc "\<lambda>x. x" one_hot
        many_images many_labels one_image one_label _ 150 1 many_encoded one_encoded 150 "[10]"] h
    by blast
  then have r: "training_cell ''channels_last'' Suc (\<lambda>x. x) one_hot
         ((many_images, many_labels), (one_image, one_label)) = Inr sample_run"
    by (simp add: first_hundred_images converted_test_image sample_run_def)
  show ?thesis
    using h r by (simp add: sample_run_def shape0_def many_images_def)
qed

end
